theory Spec2Isabelle
  imports Main
begin

section \<open>JavaScript values\<close>

text \<open>
  The gateway handles untyped JSON: the TypeScript interfaces of \<^verbatim>\<open>types.ts\<close> are
  compile-time casts (\<^verbatim>\<open>as JiraIssue\<close>) and check nothing at run time. Values are
  therefore modelled as they are at run time. Objects are association lists in insertion
  order, with distinct keys as \<^verbatim>\<open>JSON.parse\<close> and object literals produce them.

  A string is the list of the bytes of its UTF-8 encoding. A JavaScript string is a
  sequence of UTF-16 code units and may hold a surrogate that has no partner; such a lone
  surrogate is kept as the three bytes its code point would have (\<open>ED\<close>, then \<open>A0\<close> to
  \<open>BF\<close>, then a continuation byte), which UTF-8 proper never contains.

  A number is kept as the text JavaScript prints for it (\<^verbatim>\<open>50\<close>, \<^verbatim>\<open>2.5\<close>, \<^verbatim>\<open>1e+21\<close>,
  \<^verbatim>\<open>NaN\<close>). The program never computes with a number it is given: it prints it into a
  URL or a message, passes it on, or tests it for truthiness, and each of these is read
  off the text.
\<close>

type_synonym number = string

datatype jsv =
    JUndefined
  | JNull
  | JBool bool
  | JNum number
  | JStr string
  | JArr "jsv list"
  | JObj "(string \<times> jsv) list"

text \<open>
  A thrown value: an \<^verbatim>\<open>Error\<close> instance with its message, or any other value, kept as
  what \<^verbatim>\<open>String(value)\<close> gives. Every \<^verbatim>\<open>catch\<close> of the program reads a thrown value
  through \<^verbatim>\<open>error instanceof Error ? error.message : String(error)\<close>.
\<close>

datatype js_thrown = JsError string | JsValue string

fun thrown_message :: "js_thrown \<Rightarrow> string" where
  "thrown_message (JsError m) = m"
| "thrown_message (JsValue s) = s"

definition bindE :: "('e + 'a) \<Rightarrow> ('a \<Rightarrow> 'e + 'b) \<Rightarrow> 'e + 'b" where
  "bindE m f = (case m of Inl e \<Rightarrow> Inl e | Inr x \<Rightarrow> f x)"

fun truthy :: "jsv \<Rightarrow> bool" where
  "truthy JUndefined = False"
| "truthy JNull = False"
| "truthy (JBool b) = b"
| "truthy (JNum n) = (n \<noteq> ''0'' \<and> n \<noteq> ''NaN'')"
| "truthy (JStr s) = (s \<noteq> [])"
| "truthy (JArr xs) = True"
| "truthy (JObj kvs) = True"

text \<open>\<^verbatim>\<open>a || b\<close>\<close>

definition js_or :: "jsv \<Rightarrow> jsv \<Rightarrow> jsv" where
  "js_or a b = (if truthy a then a else b)"

definition obj_lookup :: "(string \<times> jsv) list \<Rightarrow> string \<Rightarrow> jsv" where
  "obj_lookup kvs k = (case map_of kvs k of None \<Rightarrow> JUndefined | Some v \<Rightarrow> v)"

definition quoted :: "string \<Rightarrow> string" where
  "quoted k = [CHR 0x27] @ k @ [CHR 0x27]"

definition digit_char :: "nat \<Rightarrow> char" where
  "digit_char d = char_of (of_char (CHR ''0'') + d)"

text \<open>
  The decimal digits of a natural number, which is how JavaScript prints a status code
  or the length of an array.
\<close>

fun show_nat :: "nat \<Rightarrow> string" where
  "show_nat n = (if n < 10 then [digit_char n] else show_nat (n div 10) @ [digit_char (n mod 10)])"

declare show_nat.simps [simp del]

text \<open>
  The \<^verbatim>\<open>length\<close> of a string, in UTF-16 code units: one for each character, and one
  more for each character outside the basic plane (a leading byte from \<open>F0\<close> on).
\<close>

definition utf16_length :: "string \<Rightarrow> nat" where
  "utf16_length s =
     length (filter (\<lambda>c. (of_char c :: nat) < 0x80 \<or> 0xC0 \<le> (of_char c :: nat)) s) +
     length (filter (\<lambda>c. 0xF0 \<le> (of_char c :: nat)) s)"

text \<open>
  \<^verbatim>\<open>v.k\<close>: reading a property of \<^verbatim>\<open>undefined\<close> or \<^verbatim>\<open>null\<close> throws a TypeError (the
  message is V8's, the engine of Deno). Arrays and strings own \<^verbatim>\<open>length\<close>; none of the
  other property names this program reads exists on a primitive or an array.
\<close>

fun js_get :: "jsv \<Rightarrow> string \<Rightarrow> js_thrown + jsv" where
  "js_get JUndefined k =
     Inl (JsError (''Cannot read properties of undefined (reading '' @ quoted k @ '')''))"
| "js_get JNull k =
     Inl (JsError (''Cannot read properties of null (reading '' @ quoted k @ '')''))"
| "js_get (JObj kvs) k = Inr (obj_lookup kvs k)"
| "js_get (JArr xs) k = Inr (if k = ''length'' then JNum (show_nat (length xs)) else JUndefined)"
| "js_get (JStr s) k = Inr (if k = ''length'' then JNum (show_nat (utf16_length s)) else JUndefined)"
| "js_get (JBool b) k = Inr JUndefined"
| "js_get (JNum n) k = Inr JUndefined"

text \<open>\<^verbatim>\<open>v?.k\<close>\<close>

definition js_get_opt :: "jsv \<Rightarrow> string \<Rightarrow> js_thrown + jsv" where
  "js_get_opt v k = (if v = JUndefined \<or> v = JNull then Inr JUndefined else js_get v k)"

subsection \<open>Values in template literals\<close>

fun join_comma :: "string list \<Rightarrow> string" where
  "join_comma [] = []"
| "join_comma [s] = s"
| "join_comma (s # t # ss) = s @ '','' @ join_comma (t # ss)"

text \<open>\<^verbatim>\<open>`${v}`\<close>, the string conversion of a template literal.\<close>

fun js_to_string :: "jsv \<Rightarrow> string" where
  "js_to_string JUndefined = ''undefined''"
| "js_to_string JNull = ''null''"
| "js_to_string (JBool b) = (if b then ''true'' else ''false'')"
| "js_to_string (JNum n) = n"
| "js_to_string (JStr s) = s"
| "js_to_string (JArr xs) =
     join_comma (map (\<lambda>x. if x = JUndefined \<or> x = JNull then [] else js_to_string x) xs)"
| "js_to_string (JObj kvs) = ''[object Object]''"

subsection \<open>\<^verbatim>\<open>JSON.stringify\<close>\<close>

text \<open>
  The JSON document \<^verbatim>\<open>JSON.stringify\<close> writes for a value: a property of an object
  whose value is \<^verbatim>\<open>undefined\<close> is left out, an \<^verbatim>\<open>undefined\<close> element of an array becomes
  \<^verbatim>\<open>null\<close>, and so does a number that is not finite. (For \<^verbatim>\<open>undefined\<close> itself nothing is
  written; the handlers only ever print objects.)
\<close>

fun json_of :: "jsv \<Rightarrow> jsv" where
  "json_of (JObj kvs) =
     JObj (concat (map (\<lambda>(k, v). if v = JUndefined then [] else [(k, json_of v)]) kvs))"
| "json_of (JArr xs) = JArr (map (\<lambda>x. if x = JUndefined then JNull else json_of x) xs)"
| "json_of (JNum n) = (if n \<in> set [''NaN'', ''Infinity'', ''-Infinity''] then JNull else JNum n)"
| "json_of v = v"

subsection \<open>\<^verbatim>\<open>encodeURIComponent\<close>\<close>

definition uri_unreserved :: "char \<Rightarrow> bool" where
  "uri_unreserved c \<longleftrightarrow>
     c \<in> set (''ABCDEFGHIJKLMNOPQRSTUVWXYZabcdefghijklmnopqrstuvwxyz0123456789-_.!~*()'' @ [CHR 0x27])"

definition hex_digit :: "nat \<Rightarrow> char" where
  "hex_digit d = (if d < 10 then digit_char d else char_of (of_char (CHR ''A'') + (d - 10)))"

definition percent_encode :: "char \<Rightarrow> string" where
  "percent_encode c =
     (let n = (of_char c :: nat) in [CHR ''%'', hex_digit (n div 16), hex_digit (n mod 16)])"

text \<open>
  Whether a string holds a lone surrogate: the byte \<open>ED\<close> followed by one from \<open>A0\<close> to
  \<open>BF\<close>.
\<close>

fun lone_surrogate :: "string \<Rightarrow> bool" where
  "lone_surrogate (c # d # cs) =
     ((of_char c :: nat) = 0xED \<and> 0xA0 \<le> (of_char d :: nat) \<and> (of_char d :: nat) \<le> 0xBF \<or>
      lone_surrogate (d # cs))"
| "lone_surrogate cs = False"

text \<open>
  Every character outside the unreserved set is replaced by the percent escapes of its
  UTF-8 bytes. On a lone surrogate the function throws a URIError, whose message in V8
  is \<^verbatim>\<open>URI malformed\<close>.
\<close>

definition encodeURIComponent :: "string \<Rightarrow> js_thrown + string" where
  "encodeURIComponent s =
     (if lone_surrogate s then Inl (JsError ''URI malformed'')
      else Inr (concat (map (\<lambda>c. if uri_unreserved c then [c] else percent_encode c) s)))"

section \<open>Logger\<close>

datatype LogLevel = DEBUG | INFO | WARNING | ERROR

fun level_value :: "LogLevel \<Rightarrow> string" where
  "level_value DEBUG = ''debug''"
| "level_value INFO = ''info''"
| "level_value WARNING = ''warning''"
| "level_value ERROR = ''error''"

text \<open>
  A stored entry. Its \<^verbatim>\<open>id\<close> (a random UUID) and \<^verbatim>\<open>timestamp\<close> are left out: nothing
  in the program reads them back.
\<close>

record LogEntry =
  level :: LogLevel
  message :: string
  details :: jsv

text \<open>
  What reaches the console: the logger's echo of an entry (\<^verbatim>\<open>[timestamp] LEVEL: message\<close>
  followed by \<^verbatim>\<open>details || ''\<close>, on the stream of its level), or a line written by
  \<^verbatim>\<open>console.error\<close> directly.
\<close>

datatype console_line = LoggerEcho LogLevel string jsv | ConsoleError string

record RequestInit =
  http_method :: "string option"
  http_body :: "jsv option"

text \<open>
  One call of \<^verbatim>\<open>fetch(url, requestOptions)\<close>. The body is the value handed to
  \<^verbatim>\<open>JSON.stringify\<close>.
\<close>

record request =
  req_url :: string
  req_method :: "string option"
  req_headers :: "(string \<times> string) list"
  req_body :: "jsv option"

text \<open>
  The state a tool call can change: the logger (its threshold, fixed at construction,
  and its entries), the console, and the calls of \<^verbatim>\<open>fetch\<close> made so far.
\<close>

record world =
  debugLevel :: string
  logs :: "LogEntry list"
  console :: "console_line list"
  requests :: "request list"

text \<open>\<^verbatim>\<open>Array.prototype.indexOf\<close>\<close>

fun indexOf :: "'a list \<Rightarrow> 'a \<Rightarrow> int" where
  "indexOf [] x = - 1"
| "indexOf (y # ys) x = (if y = x then 0 else (let i = indexOf ys x in if i < 0 then - 1 else i + 1))"

definition Logger_new :: "string option \<Rightarrow> world" where
  "Logger_new dl =
     \<lparr> debugLevel = (case dl of None \<Rightarrow> ''debug'' | Some d \<Rightarrow> if d = [] then ''debug'' else d),
       logs = [], console = [], requests = [] \<rparr>"

definition shouldLog :: "world \<Rightarrow> LogLevel \<Rightarrow> bool" where
  "shouldLog w lvl =
     (let levels = map level_value [DEBUG, INFO, WARNING, ERROR];
          currentIndex = indexOf levels (debugLevel w);
          messageIndex = indexOf levels (level_value lvl)
      in messageIndex \<ge> currentIndex)"

definition logger_log :: "LogLevel \<Rightarrow> string \<Rightarrow> jsv \<Rightarrow> world \<Rightarrow> world" where
  "logger_log lvl msg det w =
     (if shouldLog w lvl
      then w\<lparr> logs := logs w @ [\<lparr> level = lvl, message = msg, details = det \<rparr>],
               console := console w @ [LoggerEcho lvl msg (js_or det (JStr []))] \<rparr>
      else w)"

definition logger_debug :: "string \<Rightarrow> jsv \<Rightarrow> world \<Rightarrow> world" where
  "logger_debug = logger_log DEBUG"

definition logger_info :: "string \<Rightarrow> jsv \<Rightarrow> world \<Rightarrow> world" where
  "logger_info = logger_log INFO"

definition logger_warning :: "string \<Rightarrow> jsv \<Rightarrow> world \<Rightarrow> world" where
  "logger_warning = logger_log WARNING"

definition logger_error :: "string \<Rightarrow> jsv \<Rightarrow> world \<Rightarrow> world" where
  "logger_error = logger_log ERROR"

section \<open>The upstream API\<close>

text \<open>
  What \<^verbatim>\<open>fetch\<close> can do: reject (a network-level failure) or resolve to a response.
  Of a response the client reads the status, the status text, and either
  \<^verbatim>\<open>response.text()\<close> or \<^verbatim>\<open>response.json()\<close>, each of which may itself reject.
\<close>

record response =
  status :: nat
  statusText :: string
  text_result :: "js_thrown + string"
  json_result :: "js_thrown + jsv"

definition response_ok :: "response \<Rightarrow> bool" where
  "response_ok r \<longleftrightarrow> 200 \<le> status r \<and> status r \<le> 299"

datatype fetch_result = Rejects js_thrown | Resolves response

text \<open>
  The upstream server and the network are a parameter: any function from the earlier
  calls and the present call to an outcome.
\<close>

type_synonym upstream = "request list \<Rightarrow> request \<Rightarrow> fetch_result"

record Config =
  JIRA_MCP_URL :: string
  JIRA_MCP_TOKEN :: string
  JIRA_MCP_PORT :: "string option"
  JIRA_MCP_DEBUG :: "string option"

section \<open>JiraClient\<close>

type_synonym 'a io = "world \<Rightarrow> (js_thrown + 'a) \<times> world"

text \<open>The body of the \<^verbatim>\<open>try\<close> block of \<^verbatim>\<open>makeRequest\<close>, from the call of \<^verbatim>\<open>fetch\<close> on.\<close>

definition makeRequest_try :: "fetch_result \<Rightarrow> string \<Rightarrow> jsv io" where
  "makeRequest_try outcome url w =
     (case outcome of
        Rejects e \<Rightarrow> (Inl e, w)
      | Resolves resp \<Rightarrow>
          if \<not> response_ok resp then
            (case text_result resp of
               Inl e \<Rightarrow> (Inl e, w)
             | Inr errorText \<Rightarrow>
                 (let error = ''JIRA API error: '' @ show_nat (status resp) @ '' '' @
                        statusText resp @ '' - '' @ errorText
                  in (Inl (JsError error),
                      logger_error error
                        (JObj [(''url'', JStr url), (''status'', JNum (show_nat (status resp)))]) w)))
          else
            (case json_result resp of
               Inl e \<Rightarrow> (Inl e, w)
             | Inr data \<Rightarrow>
                 (Inr data,
                  logger_debug ''JIRA API response received''
                    (JObj [(''url'', JStr url), (''status'', JNum (show_nat (status resp)))]) w)))"

text \<open>
  The URL and the \<^verbatim>\<open>requestOptions\<close> of a call. No caller passes \<^verbatim>\<open>headers\<close> in its
  options, so the three fixed headers are the request's headers.
\<close>

definition endpoint_url :: "Config \<Rightarrow> string \<Rightarrow> string" where
  "endpoint_url config endpoint = JIRA_MCP_URL config @ ''/rest/api/2/'' @ endpoint"

definition requestOptions :: "Config \<Rightarrow> string \<Rightarrow> RequestInit \<Rightarrow> request" where
  "requestOptions config endpoint options =
     \<lparr> req_url = endpoint_url config endpoint, req_method = http_method options,
       req_headers = [(''Authorization'', ''Bearer '' @ JIRA_MCP_TOKEN config),
                      (''Content-Type'', ''application/json''),
                      (''Accept'', ''application/json'')],
       req_body = http_body options \<rparr>"

definition makeRequest :: "Config \<Rightarrow> upstream \<Rightarrow> string \<Rightarrow> RequestInit \<Rightarrow> jsv io" where
  "makeRequest config up endpoint options w =
     (let url = endpoint_url config endpoint;
          req = requestOptions config endpoint options;
          w1 = logger_debug ''Making JIRA API request''
                 (JObj [(''url'', JStr url),
                        (''method'', JStr (case req_method req of None \<Rightarrow> ''GET''
                                           | Some m \<Rightarrow> if m = [] then ''GET'' else m))]) w;
          outcome = up (requests w1) req;
          w2 = w1\<lparr> requests := requests w1 @ [req] \<rparr>
      in case makeRequest_try outcome url w2 of
           (Inr data, w3) \<Rightarrow> (Inr data, w3)
         | (Inl error, w3) \<Rightarrow>
             (let errorMessage = ''JIRA API request failed: '' @ thrown_message error
              in (Inl (JsError errorMessage),
                  logger_error errorMessage
                    (JObj [(''url'', JStr url), (''error'', JStr (thrown_message error))]) w3)))"

subsection \<open>Sequencing, \<^verbatim>\<open>throw\<close> and \<^verbatim>\<open>try\<close>/\<^verbatim>\<open>catch\<close>\<close>

definition returnIO :: "'a \<Rightarrow> 'a io" where
  "returnIO x w = (Inr x, w)"

definition throwIO :: "js_thrown \<Rightarrow> 'a io" where
  "throwIO e w = (Inl e, w)"

definition bindIO :: "'a io \<Rightarrow> ('a \<Rightarrow> 'b io) \<Rightarrow> 'b io" where
  "bindIO m f w = (case m w of (Inl e, w') \<Rightarrow> (Inl e, w') | (Inr x, w') \<Rightarrow> f x w')"

text \<open>An expression that may throw and has no other effect.\<close>

definition evalIO :: "(js_thrown + 'a) \<Rightarrow> 'a io" where
  "evalIO r w = (r, w)"

text \<open>A logger call, then the rest.\<close>

definition logIO :: "(world \<Rightarrow> world) \<Rightarrow> 'a io \<Rightarrow> 'a io" where
  "logIO l m w = m (l w)"

definition try_catch :: "'a io \<Rightarrow> (js_thrown \<Rightarrow> 'a io) \<Rightarrow> 'a io" where
  "try_catch m h w = (case m w of (Inl e, w') \<Rightarrow> h e w' | (Inr x, w') \<Rightarrow> (Inr x, w'))"

text \<open>
  The \<^verbatim>\<open>catch\<close> clause every client method ends with: log at error level, rethrow the
  same value.
\<close>

definition log_and_rethrow :: "string \<Rightarrow> (string \<Rightarrow> jsv) \<Rightarrow> js_thrown \<Rightarrow> 'a io" where
  "log_and_rethrow msg det error = logIO (logger_error msg (det (thrown_message error))) (throwIO error)"

subsection \<open>Shaping an issue\<close>

text \<open>
  The six-field object literal of \<^verbatim>\<open>getIssue\<close>, which the \<^verbatim>\<open>jira_search\<close> handler
  repeats for every issue of a result. Its properties are evaluated in order, so the
  first read that throws decides the thrown value.
\<close>

definition issue_field :: "jsv \<Rightarrow> string \<Rightarrow> js_thrown + jsv" where
  "issue_field issue k = bindE (js_get issue ''fields'') (\<lambda>fs. js_get fs k)"

definition issue_field_or :: "jsv \<Rightarrow> string \<Rightarrow> string \<Rightarrow> string \<Rightarrow> js_thrown + jsv" where
  "issue_field_or issue k p dflt =
     bindE (issue_field issue k) (\<lambda>v.
     bindE (js_get_opt v p) (\<lambda>x. Inr (js_or x (JStr dflt))))"

definition shape_issue :: "jsv \<Rightarrow> js_thrown + jsv" where
  "shape_issue issue =
     bindE (js_get issue ''key'') (\<lambda>key.
     bindE (issue_field issue ''summary'') (\<lambda>summary.
     bindE (bindE (issue_field issue ''status'') (\<lambda>st. js_get st ''name'')) (\<lambda>status.
     bindE (issue_field_or issue ''assignee'' ''displayName'' ''Unassigned'') (\<lambda>assignee.
     bindE (issue_field_or issue ''priority'' ''name'' ''None'') (\<lambda>priority.
     bindE (issue_field_or issue ''reporter'' ''displayName'' ''Unknown'') (\<lambda>reporter.
       Inr (JObj [(''key'', key), (''summary'', summary), (''status'', status),
                  (''assignee'', assignee), (''priority'', priority),
                  (''reporter'', reporter)])))))))"

subsection \<open>The client's methods\<close>

definition getIssue :: "Config \<Rightarrow> upstream \<Rightarrow> jsv \<Rightarrow> jsv io" where
  "getIssue config up issueKey =
     logIO (logger_info ''Fetching JIRA issue'' (JObj [(''issueKey'', issueKey)]))
       (try_catch
          (bindIO (makeRequest config up (''issue/'' @ js_to_string issueKey)
                     \<lparr> http_method = None, http_body = None \<rparr>) (\<lambda>issue.
           bindIO (evalIO (issue_field issue ''summary'')) (\<lambda>summary.
           logIO (logger_info ''Successfully fetched JIRA issue''
                    (JObj [(''issueKey'', issueKey), (''summary'', summary)]))
             (evalIO (shape_issue issue)))))
          (log_and_rethrow ''Failed to fetch JIRA issue''
             (\<lambda>m. JObj [(''issueKey'', issueKey), (''error'', JStr m)])))"

definition searchIssues ::
  "Config \<Rightarrow> upstream \<Rightarrow> string \<Rightarrow> number option \<Rightarrow> number option \<Rightarrow> jsv io" where
  "searchIssues config up jql startAt_arg maxResults_arg =
     (let startAt = (case startAt_arg of None \<Rightarrow> ''0'' | Some n \<Rightarrow> n);
          maxResults = (case maxResults_arg of None \<Rightarrow> ''50'' | Some n \<Rightarrow> n)
      in logIO (logger_info ''Searching JIRA issues''
                  (JObj [(''jql'', JStr jql), (''startAt'', JNum startAt),
                         (''maxResults'', JNum maxResults)]))
           (try_catch
              (bindIO (evalIO (encodeURIComponent jql)) (\<lambda>encoded.
               bindIO (makeRequest config up
                         (''search?jql='' @ encoded @ ''&startAt='' @ startAt @
                          ''&maxResults='' @ maxResults)
                         \<lparr> http_method = None, http_body = None \<rparr>) (\<lambda>result.
               bindIO (evalIO (js_get result ''total'')) (\<lambda>total.
               bindIO (evalIO (bindE (js_get result ''issues'') (\<lambda>is. js_get is ''length'')))
                 (\<lambda>returned.
               logIO (logger_info ''Successfully searched JIRA issues''
                        (JObj [(''jql'', JStr jql), (''total'', total), (''returned'', returned)]))
                 (returnIO result))))))
              (log_and_rethrow ''Failed to search JIRA issues''
                 (\<lambda>m. JObj [(''jql'', JStr jql), (''error'', JStr m)]))))"

text \<open>The rich-text document the client writes out for a description or a comment.\<close>

definition rich_text :: "string \<Rightarrow> jsv" where
  "rich_text t =
     JObj [(''type'', JStr ''doc''), (''version'', JNum ''1''),
           (''content'', JArr [JObj [(''type'', JStr ''paragraph''),
              (''content'', JArr [JObj [(''type'', JStr ''text''), (''text'', JStr t)]])]])]"

text \<open>\<^verbatim>\<open>if (s)\<close> for an optional string: present and not empty.\<close>

fun given :: "string option \<Rightarrow> bool" where
  "given None = False"
| "given (Some s) = (s \<noteq> [])"

definition createIssue_fields ::
  "string \<Rightarrow> string \<Rightarrow> string \<Rightarrow> string option \<Rightarrow> string option \<Rightarrow> string option
   \<Rightarrow> (string \<times> jsv) list" where
  "createIssue_fields projectKey issueType summary description assignee priority =
     [(''project'', JObj [(''key'', JStr projectKey)]),
      (''issuetype'', JObj [(''name'', JStr issueType)]),
      (''summary'', JStr summary)]
     @ (if given description then [(''description'', rich_text (the description))] else [])
     @ (if given assignee then [(''assignee'', JObj [(''name'', JStr (the assignee))])] else [])
     @ (if given priority then [(''priority'', JObj [(''name'', JStr (the priority))])] else [])"

definition createIssue ::
  "Config \<Rightarrow> upstream \<Rightarrow> string \<Rightarrow> string \<Rightarrow> string \<Rightarrow> string option \<Rightarrow> string option
   \<Rightarrow> string option \<Rightarrow> jsv io" where
  "createIssue config up projectKey issueType summary description assignee priority =
     logIO (logger_info ''Creating JIRA issue''
              (JObj [(''projectKey'', JStr projectKey), (''issueType'', JStr issueType),
                     (''summary'', JStr summary)]))
       (try_catch
          (bindIO (makeRequest config up ''issue''
                     \<lparr> http_method = Some ''POST'',
                       http_body = Some (JObj [(''fields'', JObj (createIssue_fields projectKey
                                 issueType summary description assignee priority))]) \<rparr>)
             (\<lambda>result.
           bindIO (evalIO (js_get result ''key'')) (\<lambda>key.
           logIO (logger_info ''Successfully created JIRA issue''
                    (JObj [(''issueKey'', key), (''projectKey'', JStr projectKey),
                           (''summary'', JStr summary)]))
             (getIssue config up key))))
          (log_and_rethrow ''Failed to create JIRA issue''
             (\<lambda>m. JObj [(''projectKey'', JStr projectKey), (''issueType'', JStr issueType),
                         (''summary'', JStr summary), (''error'', JStr m)])))"

text \<open>\<^verbatim>\<open>obj[key] = value\<close>: an existing key keeps its place, a new one goes last.\<close>

fun obj_set :: "(string \<times> jsv) list \<Rightarrow> string \<Rightarrow> jsv \<Rightarrow> (string \<times> jsv) list" where
  "obj_set [] k v = [(k, v)]"
| "obj_set ((k', v') # kvs) k v = (if k' = k then (k, v) # kvs else (k', v') # obj_set kvs k v)"

definition updateIssue_entry :: "(string \<times> jsv) list \<Rightarrow> string \<times> jsv \<Rightarrow> (string \<times> jsv) list" where
  "updateIssue_entry updateFields kv =
     (case kv of (key, val) \<Rightarrow>
        if key = ''summary'' \<or> key = ''description'' then obj_set updateFields key val
        else if key = ''assignee'' then obj_set updateFields key (JObj [(''name'', val)])
        else if key = ''priority'' then obj_set updateFields key (JObj [(''name'', val)])
        else obj_set updateFields key val)"

definition updateIssue :: "Config \<Rightarrow> upstream \<Rightarrow> string \<Rightarrow> (string \<times> jsv) list \<Rightarrow> jsv io" where
  "updateIssue config up issueKey update_fields =
     logIO (logger_info ''Updating JIRA issue''
              (JObj [(''issueKey'', JStr issueKey), (''fields'', JArr (map (JStr \<circ> fst) update_fields))]))
       (try_catch
          (let updateFields = foldl updateIssue_entry [] update_fields
           in bindIO (makeRequest config up (''issue/'' @ issueKey)
                        \<lparr> http_method = Some ''PUT'',
                          http_body = Some (JObj [(''fields'', JObj updateFields)]) \<rparr>) (\<lambda>_.
              logIO (logger_info ''Successfully updated JIRA issue''
                       (JObj [(''issueKey'', JStr issueKey)]))
                (getIssue config up (JStr issueKey))))
          (log_and_rethrow ''Failed to update JIRA issue''
             (\<lambda>m. JObj [(''issueKey'', JStr issueKey), (''error'', JStr m)])))"

definition transitionIssue_body :: "string \<Rightarrow> string option \<Rightarrow> jsv" where
  "transitionIssue_body transitionId comment =
     JObj ([(''transition'', JObj [(''id'', JStr transitionId)])]
           @ (if given comment
              then [(''update'', JObj [(''comment'',
                       JArr [JObj [(''add'', JObj [(''body'', rich_text (the comment))])]])])]
              else []))"

definition transitionIssue :: "Config \<Rightarrow> upstream \<Rightarrow> string \<Rightarrow> string \<Rightarrow> string option \<Rightarrow> unit io" where
  "transitionIssue config up issueKey transitionId comment =
     logIO (logger_info ''Transitioning JIRA issue''
              (JObj [(''issueKey'', JStr issueKey), (''transitionId'', JStr transitionId)]))
       (try_catch
          (bindIO (makeRequest config up (''issue/'' @ issueKey @ ''/transitions'')
                     \<lparr> http_method = Some ''POST'',
                       http_body = Some (transitionIssue_body transitionId comment) \<rparr>) (\<lambda>_.
           logIO (logger_info ''Successfully transitioned JIRA issue''
                    (JObj [(''issueKey'', JStr issueKey), (''transitionId'', JStr transitionId)]))
             (returnIO ())))
          (log_and_rethrow ''Failed to transition JIRA issue''
             (\<lambda>m. JObj [(''issueKey'', JStr issueKey), (''transitionId'', JStr transitionId),
                         (''error'', JStr m)])))"

definition addComment :: "Config \<Rightarrow> upstream \<Rightarrow> string \<Rightarrow> string \<Rightarrow> unit io" where
  "addComment config up issueKey comment =
     logIO (logger_info ''Adding comment to JIRA issue'' (JObj [(''issueKey'', JStr issueKey)]))
       (try_catch
          (bindIO (makeRequest config up (''issue/'' @ issueKey @ ''/comment'')
                     \<lparr> http_method = Some ''POST'',
                       http_body = Some (JObj [(''body'', rich_text comment)]) \<rparr>) (\<lambda>_.
           logIO (logger_info ''Successfully added comment to JIRA issue''
                    (JObj [(''issueKey'', JStr issueKey)]))
             (returnIO ())))
          (log_and_rethrow ''Failed to add comment to JIRA issue''
             (\<lambda>m. JObj [(''issueKey'', JStr issueKey), (''error'', JStr m)])))"

section \<open>Tool handlers\<close>

text \<open>
  A handler resolves to a text. \<open>JsonText j\<close> is the pretty-printed text of the JSON
  document \<open>j\<close>; \<^verbatim>\<open>JSON.stringify(v, null, 2)\<close> is \<open>JsonText (json_of v)\<close>.
\<close>

datatype tool_result = Text string | JsonText jsv

text \<open>
  The \<^verbatim>\<open>catch\<close> clause of a handler, the same in every tool but for the tool's name.
\<close>

definition tool_catch :: "string \<Rightarrow> js_thrown \<Rightarrow> tool_result io" where
  "tool_catch name error =
     (let errorMsg = thrown_message error
      in logIO (logger_error (''Error in '' @ name @ '': '' @ errorMsg) JUndefined)
           (returnIO (Text (''Error: '' @ errorMsg))))"

definition jira_get_issue_try :: "Config \<Rightarrow> upstream \<Rightarrow> string \<Rightarrow> tool_result io" where
  "jira_get_issue_try config up issueKey =
     bindIO (getIssue config up (JStr issueKey)) (\<lambda>issue. returnIO (JsonText (json_of issue)))"

definition jira_get_issue :: "Config \<Rightarrow> upstream \<Rightarrow> string \<Rightarrow> tool_result io" where
  "jira_get_issue config up issueKey =
     try_catch (jira_get_issue_try config up issueKey) (tool_catch ''jira_get_issue'')"

fun mapE :: "('a \<Rightarrow> 'e + 'b) \<Rightarrow> 'a list \<Rightarrow> 'e + 'b list" where
  "mapE f [] = Inr []"
| "mapE f (x # xs) = bindE (f x) (\<lambda>y. bindE (mapE f xs) (\<lambda>ys. Inr (y # ys)))"

text \<open>\<^verbatim>\<open>result.issues.map(f)\<close>, for whatever value \<^verbatim>\<open>result.issues\<close> is.\<close>

definition issues_map :: "(jsv \<Rightarrow> js_thrown + jsv) \<Rightarrow> jsv \<Rightarrow> js_thrown + jsv" where
  "issues_map f v =
     (case v of
        JArr xs \<Rightarrow> bindE (mapE f xs) (\<lambda>ys. Inr (JArr ys))
      | JUndefined \<Rightarrow> bindE (js_get v ''map'') Inr
      | JNull \<Rightarrow> bindE (js_get v ''map'') Inr
      | _ \<Rightarrow> Inl (JsError ''result.issues.map is not a function''))"

definition search_summary :: "jsv \<Rightarrow> js_thrown + jsv" where
  "search_summary result =
     bindE (js_get result ''total'') (\<lambda>total.
     bindE (js_get result ''startAt'') (\<lambda>startAt.
     bindE (js_get result ''maxResults'') (\<lambda>maxResults.
     bindE (bindE (js_get result ''issues'') (issues_map shape_issue)) (\<lambda>issues.
       Inr (JObj [(''total'', total), (''startAt'', startAt), (''maxResults'', maxResults),
                  (''issues'', issues)])))))"

text \<open>
  The parameter schema of \<^verbatim>\<open>jira_search\<close>: \<^verbatim>\<open>startAt\<close> and \<^verbatim>\<open>maxResults\<close> are
  \<^verbatim>\<open>z.number().optional().default(\<dots>)\<close>, so the handler receives a number for each.
\<close>

definition jira_search_parameters :: "number option \<Rightarrow> number option \<Rightarrow> number \<times> number" where
  "jira_search_parameters startAt maxResults =
     ((case startAt of None \<Rightarrow> ''0'' | Some n \<Rightarrow> n),
      (case maxResults of None \<Rightarrow> ''50'' | Some n \<Rightarrow> n))"

definition jira_search_try ::
  "Config \<Rightarrow> upstream \<Rightarrow> string \<Rightarrow> number \<Rightarrow> number \<Rightarrow> tool_result io" where
  "jira_search_try config up jql startAt maxResults =
     bindIO (searchIssues config up jql (Some startAt) (Some maxResults)) (\<lambda>result.
     bindIO (evalIO (search_summary result)) (\<lambda>summary. returnIO (JsonText (json_of summary))))"

definition jira_search ::
  "Config \<Rightarrow> upstream \<Rightarrow> string \<Rightarrow> number \<Rightarrow> number \<Rightarrow> tool_result io" where
  "jira_search config up jql startAt maxResults =
     try_catch (jira_search_try config up jql startAt maxResults) (tool_catch ''jira_search'')"

definition jira_create_issue_try ::
  "Config \<Rightarrow> upstream \<Rightarrow> string \<Rightarrow> string \<Rightarrow> string \<Rightarrow> string option \<Rightarrow> string option
   \<Rightarrow> string option \<Rightarrow> tool_result io" where
  "jira_create_issue_try config up projectKey issueType summary description assignee priority =
     bindIO (createIssue config up projectKey issueType summary description assignee priority)
       (\<lambda>issue. returnIO (JsonText (json_of issue)))"

definition jira_create_issue ::
  "Config \<Rightarrow> upstream \<Rightarrow> string \<Rightarrow> string \<Rightarrow> string \<Rightarrow> string option \<Rightarrow> string option
   \<Rightarrow> string option \<Rightarrow> tool_result io" where
  "jira_create_issue config up projectKey issueType summary description assignee priority =
     try_catch
       (jira_create_issue_try config up projectKey issueType summary description assignee priority)
       (tool_catch ''jira_create_issue'')"

text \<open>An optional argument as the handler sees it: a string or \<^verbatim>\<open>undefined\<close>.\<close>

fun optional_arg :: "string option \<Rightarrow> jsv" where
  "optional_arg None = JUndefined"
| "optional_arg (Some s) = JStr s"

text \<open>
  \<^verbatim>\<open>const { issueKey, ...fields } = args\<close>, then the entries whose value is not
  \<^verbatim>\<open>undefined\<close>, in the order of the schema.
\<close>

definition filteredFields ::
  "string option \<Rightarrow> string option \<Rightarrow> string option \<Rightarrow> string option \<Rightarrow> (string \<times> jsv) list" where
  "filteredFields summary description assignee priority =
     filter (\<lambda>(_, val). val \<noteq> JUndefined)
       [(''summary'', optional_arg summary), (''description'', optional_arg description),
        (''assignee'', optional_arg assignee), (''priority'', optional_arg priority)]"

definition jira_update_issue_try ::
  "Config \<Rightarrow> upstream \<Rightarrow> string \<Rightarrow> string option \<Rightarrow> string option \<Rightarrow> string option
   \<Rightarrow> string option \<Rightarrow> tool_result io" where
  "jira_update_issue_try config up issueKey summary description assignee priority =
     (let ff = filteredFields summary description assignee priority
      in if length ff = 0 then returnIO (Text ''Error: No fields provided to update'')
         else bindIO (updateIssue config up issueKey ff)
                (\<lambda>issue. returnIO (JsonText (json_of issue))))"

definition jira_update_issue ::
  "Config \<Rightarrow> upstream \<Rightarrow> string \<Rightarrow> string option \<Rightarrow> string option \<Rightarrow> string option
   \<Rightarrow> string option \<Rightarrow> tool_result io" where
  "jira_update_issue config up issueKey summary description assignee priority =
     try_catch (jira_update_issue_try config up issueKey summary description assignee priority)
       (tool_catch ''jira_update_issue'')"

definition jira_transition_issue_try ::
  "Config \<Rightarrow> upstream \<Rightarrow> string \<Rightarrow> string \<Rightarrow> string option \<Rightarrow> tool_result io" where
  "jira_transition_issue_try config up issueKey transitionId comment =
     bindIO (transitionIssue config up issueKey transitionId comment) (\<lambda>_.
       returnIO (Text (''Successfully transitioned issue '' @ issueKey)))"

definition jira_transition_issue ::
  "Config \<Rightarrow> upstream \<Rightarrow> string \<Rightarrow> string \<Rightarrow> string option \<Rightarrow> tool_result io" where
  "jira_transition_issue config up issueKey transitionId comment =
     try_catch (jira_transition_issue_try config up issueKey transitionId comment)
       (tool_catch ''jira_transition_issue'')"

definition jira_add_comment_try :: "Config \<Rightarrow> upstream \<Rightarrow> string \<Rightarrow> string \<Rightarrow> tool_result io" where
  "jira_add_comment_try config up issueKey comment =
     bindIO (addComment config up issueKey comment) (\<lambda>_.
       returnIO (Text (''Successfully added comment to issue '' @ issueKey)))"

definition jira_add_comment :: "Config \<Rightarrow> upstream \<Rightarrow> string \<Rightarrow> string \<Rightarrow> tool_result io" where
  "jira_add_comment config up issueKey comment =
     try_catch (jira_add_comment_try config up issueKey comment) (tool_catch ''jira_add_comment'')"

subsection \<open>The six JIRA tools as one dispatcher\<close>

text \<open>
  A call as the transport adapter delivers it, with arguments that passed the tool's
  parameter schema: a required argument is a string, an optional one may be absent.
\<close>

datatype tool_call =
    Get_issue string
  | Search string "number option" "number option"
  | Create_issue string string string "string option" "string option" "string option"
  | Update_issue string "string option" "string option" "string option" "string option"
  | Transition_issue string string "string option"
  | Add_comment string string



fun execute :: "Config \<Rightarrow> upstream \<Rightarrow> tool_call \<Rightarrow> tool_result io" where
  "execute config up (Get_issue k) = jira_get_issue config up k"
| "execute config up (Search q s m) =
     (case jira_search_parameters s m of (startAt, maxResults) \<Rightarrow>
        jira_search config up q startAt maxResults)"
| "execute config up (Create_issue p t s d a pr) = jira_create_issue config up p t s d a pr"
| "execute config up (Update_issue k s d a pr) = jira_update_issue config up k s d a pr"
| "execute config up (Transition_issue k t c) = jira_transition_issue config up k t c"
| "execute config up (Add_comment k c) = jira_add_comment config up k c"

section \<open>Startup\<close>

type_synonym env = "string \<Rightarrow> string option"

definition loadConfig :: "env \<Rightarrow> Config io" where
  "loadConfig env w =
     (let jiraUrl = env ''JIRA_MCP_URL'';
          jiraToken = env ''JIRA_MCP_TOKEN''
      in if \<not> given jiraUrl then
           (let error = ''JIRA_MCP_URL environment variable is required''
            in (Inl (JsError error), logger_error error JUndefined w))
         else if \<not> given jiraToken then
           (let error = ''JIRA_MCP_TOKEN environment variable is required''
            in (Inl (JsError error), logger_error error JUndefined w))
         else
           (let config = \<lparr> JIRA_MCP_URL = the jiraUrl, JIRA_MCP_TOKEN = the jiraToken,
                            JIRA_MCP_PORT = env ''JIRA_MCP_PORT'',
                            JIRA_MCP_DEBUG = Some (if given (env ''JIRA_MCP_DEBUG'')
                                                   then the (env ''JIRA_MCP_DEBUG'') else ''debug'') \<rparr>
            in (Inr config,
                logger_info ''Configuration loaded successfully''
                  (JObj [(''jiraUrl'', JStr (JIRA_MCP_URL config)), (''hasToken'', JBool True),
                         (''port'', optional_arg (JIRA_MCP_PORT config)),
                         (''debugLevel'', optional_arg (JIRA_MCP_DEBUG config))]) w)))"

definition validateRemoteConfig :: "Config \<Rightarrow> unit io" where
  "validateRemoteConfig config w =
     (if \<not> given (JIRA_MCP_PORT config) then
        (let error = ''JIRA_MCP_PORT environment variable is required when using --remote flag''
         in (Inl (JsError error), logger_error error JUndefined w))
      else (Inr (), w))"

subsection \<open>\<^verbatim>\<open>parseInt(text, 10)\<close>\<close>

definition is_digit :: "char \<Rightarrow> bool" where
  "is_digit c \<longleftrightarrow> c \<in> set ''0123456789''"

definition digit_value :: "char \<Rightarrow> nat" where
  "digit_value c = of_char c - of_char (CHR ''0'')"

text \<open>
  The white space and line terminators of JavaScript, as the bytes that encode them:
  tab, line feed, vertical tab, form feed, carriage return, space, U+00A0, U+1680,
  U+2000 to U+200A, U+2028, U+2029, U+202F, U+205F, U+3000 and U+FEFF.
\<close>

definition white_spaces :: "string list" where
  "white_spaces =
     map (\<lambda>c. [c]) [CHR 0x09, CHR 0x0A, CHR 0x0B, CHR 0x0C, CHR 0x0D, CHR 0x20] @
     [[CHR 0xC2, CHR 0xA0], [CHR 0xE1, CHR 0x9A, CHR 0x80]] @
     map (\<lambda>n. [CHR 0xE2, CHR 0x80, char_of (0x80 + n)]) [0 ..< 11 :: nat] @
     [[CHR 0xE2, CHR 0x80, CHR 0xA8], [CHR 0xE2, CHR 0x80, CHR 0xA9],
      [CHR 0xE2, CHR 0x80, CHR 0xAF], [CHR 0xE2, CHR 0x81, CHR 0x9F],
      [CHR 0xE3, CHR 0x80, CHR 0x80], [CHR 0xEF, CHR 0xBB, CHR 0xBF]]"

text \<open>The text without its leading white space; \<open>n\<close> bounds the characters dropped.\<close>

primrec trim_start :: "nat \<Rightarrow> string \<Rightarrow> string" where
  "trim_start 0 s = s"
| "trim_start (Suc n) s =
     (case filter (\<lambda>ws. take (length ws) s = ws) white_spaces of
        [] \<Rightarrow> s
      | ws # _ \<Rightarrow> trim_start n (drop (length ws) s))"

text \<open>
  A JavaScript number holds an integer as the nearest double, ties going to the even
  significand: an integer of at most 53 bits exactly, a longer one rounded to its
  leading 53 bits, and from 1024 bits on as infinity, which is \<open>None\<close>.
\<close>

fun bit_length :: "nat \<Rightarrow> nat" where
  "bit_length n = (if n = 0 then 0 else Suc (bit_length (n div 2)))"

declare bit_length.simps [simp del]

definition round_double :: "nat \<Rightarrow> nat option" where
  "round_double n =
     (if bit_length n \<le> 53 then Some n
      else (let e = bit_length n - 53;
                q = n div 2 ^ e;
                r = n mod 2 ^ e;
                q' = (if 2 ^ e < 2 * r \<or> (2 * r = 2 ^ e \<and> odd q) then q + 1 else q)
            in if 1024 < bit_length (q' * 2 ^ e) then None else Some (q' * 2 ^ e)))"

text \<open>
  How JavaScript prints a double \<open>v\<close> that is a positive integer: with the fewest
  significant digits that still denote \<open>v\<close>, and of the decimals with that many digits
  the one nearest to \<open>v\<close>; in full up to 21 digits, in exponent form beyond.
  \<open>decimal_candidates v j\<close> are the multiples of \<open>10 ^ j\<close> next to \<open>v\<close> that denote \<open>v\<close>.
\<close>

definition decimal_candidates :: "nat \<Rightarrow> nat \<Rightarrow> nat list" where
  "decimal_candidates v j =
     (let lo = (v div 10 ^ j) * 10 ^ j
      in filter (\<lambda>c. c \<noteq> 0 \<and> round_double c = Some v) [lo, lo + 10 ^ j])"

definition shortest_exponent :: "nat \<Rightarrow> nat" where
  "shortest_exponent v =
     length (takeWhile (\<lambda>j. decimal_candidates v j \<noteq> []) [1 ..< length (show_nat v) + 2])"

definition shortest_decimal :: "nat \<Rightarrow> nat" where
  "shortest_decimal v =
     (let j = shortest_exponent v
      in case decimal_candidates v j of
           [lo, hi] \<Rightarrow>
             if v - lo < hi - v then lo
             else if hi - v < v - lo then hi
             else if even (lo div 10 ^ j) then lo else hi
         | c # _ \<Rightarrow> c
         | [] \<Rightarrow> v)"

definition show_double :: "nat \<Rightarrow> string" where
  "show_double v =
     (let c = shortest_decimal v;
          n = length (show_nat c);
          s = show_nat (c div 10 ^ shortest_exponent v)
      in if n \<le> 21 then show_nat c
         else if length s = 1 then s @ ''e+'' @ show_nat (n - 1)
         else hd s # ''.'' @ tl s @ ''e+'' @ show_nat (n - 1))"

text \<open>The number that holds the integer \<open>n\<close>, negated or not, as JavaScript prints it.\<close>

definition number_of_integer :: "bool \<Rightarrow> nat \<Rightarrow> number" where
  "number_of_integer negative n =
     (case round_double n of
        None \<Rightarrow> (if negative then ''-Infinity'' else ''Infinity'')
      | Some v \<Rightarrow> if v = 0 then ''0'' else (if negative then ''-'' else []) @ show_double v)"

text \<open>
  Leading white space, an optional sign, then the longest run of decimal digits, read
  as an integer; \<^verbatim>\<open>NaN\<close> when there is no digit.
\<close>

definition parseInt :: "string \<Rightarrow> number" where
  "parseInt s =
     (let t = trim_start (length s) s;
          neg = (t \<noteq> [] \<and> hd t = CHR ''-'');
          u = (if t \<noteq> [] \<and> (hd t = CHR ''-'' \<or> hd t = CHR ''+'') then tl t else t);
          ds = takeWhile is_digit u
      in if ds = [] then ''NaN''
         else number_of_integer neg (foldl (\<lambda>acc c. acc * 10 + digit_value c) 0 ds))"

subsection \<open>The top-level block of \<^verbatim>\<open>server.ts\<close>\<close>

text \<open>
  The server process: the names of the tools added to the server so far, the transport
  it was started on, and its exit status once it has called \<^verbatim>\<open>Deno.exit\<close>.
\<close>

datatype transport = Stdio | HttpStream number

record process =
  tools :: "string list"
  started :: "transport option"
  exit_code :: "nat option"

definition tool_names :: "string list" where
  "tool_names = [''jira_get_issue'', ''jira_search'', ''jira_create_issue'', ''jira_update_issue'',
                 ''jira_transition_issue'', ''jira_add_comment'', ''get_mcp_ui'']"

definition addTool :: "string \<Rightarrow> process \<Rightarrow> process" where
  "addTool name p = p\<lparr> tools := tools p @ [name] \<rparr>"

text \<open>
  The \<^verbatim>\<open>try\<close> block, as a pass over the process and the logger. Starting the log
  viewer (\<^verbatim>\<open>startUIServer\<close>) binds a port; its outcome, a URL or a thrown value, is a
  parameter, and a failure of it is caught on the spot. The calls into the server
  framework (constructing the server, \<^verbatim>\<open>addTool\<close>, \<^verbatim>\<open>start\<close>) are taken not to throw.
\<close>

definition main_try ::
  "env \<Rightarrow> string list \<Rightarrow> (js_thrown + string) \<Rightarrow> process \<Rightarrow> world
   \<Rightarrow> (js_thrown + unit) \<times> process \<times> world" where
  "main_try env args ui p w =
     (let useRemote = (''--remote'' \<in> set args);
          useStdio = (''--stdio'' \<in> set args \<or> \<not> useRemote)
      in case loadConfig env w of
           (Inl error, w1) \<Rightarrow> (Inl error, p, w1)
         | (Inr config, w1) \<Rightarrow>
             (case (if useRemote then validateRemoteConfig config w1 else (Inr (), w1)) of
                (Inl error, w2) \<Rightarrow> (Inl error, p, w2)
              | (Inr _, w2) \<Rightarrow>
                  (let w3 = (case ui of
                               Inr uiUrl \<Rightarrow>
                                 logger_info (''UI server started at '' @ uiUrl) JUndefined w2
                             | Inl error \<Rightarrow>
                                 logger_error (''Failed to start UI server: '' @
                                               thrown_message error) JUndefined w2);
                       p1 = foldl (\<lambda>q name. addTool name q) p tool_names
                   in if useStdio then
                        (Inr (), p1\<lparr> started := Some Stdio \<rparr>,
                         logger_info ''Starting MCP server with stdio transport'' JUndefined w3)
                      else if useRemote then
                        (let port = parseInt (the (JIRA_MCP_PORT config))
                         in (Inr (), p1\<lparr> started := Some (HttpStream port) \<rparr>,
                             logger_info (''Starting MCP server with HTTP transport on port '' @
                                          js_to_string (JNum port)) JUndefined w3))
                      else (Inr (), p1, w3))))"

definition main_catch :: "js_thrown \<Rightarrow> process \<Rightarrow> world \<Rightarrow> process \<times> world" where
  "main_catch error p w =
     (let errorMsg = thrown_message error;
          w1 = logger_error (''Failed to start MCP server: '' @ errorMsg) JUndefined w;
          w2 = w1\<lparr> console := console w1 @ [ConsoleError (''FATAL: '' @ errorMsg)] \<rparr>
      in (p\<lparr> exit_code := Some 1 \<rparr>, w2))"

definition main :: "env \<Rightarrow> string list \<Rightarrow> (js_thrown + string) \<Rightarrow> process \<times> world" where
  "main env args ui =
     (case main_try env args ui \<lparr> tools = [], started = None, exit_code = None \<rparr>
             (Logger_new (env ''JIRA_MCP_DEBUG'')) of
        (Inl error, p, w) \<Rightarrow> main_catch error p w
      | (Inr _, p, w) \<Rightarrow> (p, w))"

section \<open>Vocabulary for the statements\<close>

text \<open>
  The value found in a JSON document along a path of property names, \<^verbatim>\<open>undefined\<close> when
  the path leaves the document (\<^verbatim>\<open>v?.a?.b\<close>). It is how the statements below speak of
  "the upstream field".
\<close>

fun path_value :: "jsv \<Rightarrow> string list \<Rightarrow> jsv" where
  "path_value v [] = v"
| "path_value v (k # ks) = (case js_get_opt v k of Inl _ \<Rightarrow> JUndefined | Inr x \<Rightarrow> path_value x ks)"

text \<open>
  Following the words of C3 as amended: the summary of an upstream issue. Key, summary
  and status are the upstream \<^verbatim>\<open>key\<close>, \<^verbatim>\<open>fields.summary\<close> and \<^verbatim>\<open>fields.status.name\<close>;
  assignee, priority and reporter are the upstream \<^verbatim>\<open>assignee.displayName\<close>,
  \<^verbatim>\<open>priority.name\<close> and \<^verbatim>\<open>reporter.displayName\<close> when truthy, else the sentinel.
\<close>

definition IssueSummary_of :: "jsv \<Rightarrow> jsv" where
  "IssueSummary_of issue =
     (let a = path_value issue [''fields'', ''assignee'', ''displayName''];
          p = path_value issue [''fields'', ''priority'', ''name''];
          r = path_value issue [''fields'', ''reporter'', ''displayName'']
      in JObj [(''key'', path_value issue [''key'']),
               (''summary'', path_value issue [''fields'', ''summary'']),
               (''status'', path_value issue [''fields'', ''status'', ''name'']),
               (''assignee'', if truthy a then a else JStr ''Unassigned''),
               (''priority'', if truthy p then p else JStr ''None''),
               (''reporter'', if truthy r then r else JStr ''Unknown'')])"

text \<open>A property as \<^verbatim>\<open>JSON.stringify\<close> writes it: not at all when the value is \<^verbatim>\<open>undefined\<close>.\<close>

definition json_property :: "string \<Rightarrow> jsv \<Rightarrow> (string \<times> jsv) list" where
  "json_property k v = (if v = JUndefined then [] else [(k, json_of v)])"

text \<open>The tools that answer with the summary of one issue.\<close>

fun returns_issue :: "tool_call \<Rightarrow> bool" where
  "returns_issue (Get_issue k) = True"
| "returns_issue (Create_issue p t s d a pr) = True"
| "returns_issue (Update_issue k s d a pr) = True"
| "returns_issue (Search q s m) = False"
| "returns_issue (Transition_issue k t c) = False"
| "returns_issue (Add_comment k c) = False"

text \<open>
  What \<^verbatim>\<open>makeRequest\<close> hands its caller, read off the outcome of \<^verbatim>\<open>fetch\<close>: the
  parsed body, or an \<^verbatim>\<open>Error\<close> whose message starts \<^verbatim>\<open>JIRA API request failed:\<close>. The
  error thrown inside the \<^verbatim>\<open>try\<close> block for a status outside 200 to 299 is caught by
  the block's own \<^verbatim>\<open>catch\<close> and wrapped like any other. That \<^verbatim>\<open>makeRequest\<close> computes
  this function is lemma \<open>makeRequest_result\<close>.
\<close>

definition request_result :: "fetch_result \<Rightarrow> js_thrown + jsv" where
  "request_result outcome =
     (case outcome of
        Rejects e \<Rightarrow> Inl (JsError (''JIRA API request failed: '' @ thrown_message e))
      | Resolves resp \<Rightarrow>
          if \<not> response_ok resp then
            (case text_result resp of
               Inl e \<Rightarrow> Inl (JsError (''JIRA API request failed: '' @ thrown_message e))
             | Inr errorText \<Rightarrow>
                 Inl (JsError (''JIRA API request failed: JIRA API error: '' @
                        show_nat (status resp) @ '' '' @ statusText resp @ '' - '' @ errorText)))
          else
            (case json_result resp of
               Inl e \<Rightarrow> Inl (JsError (''JIRA API request failed: '' @ thrown_message e))
             | Inr data \<Rightarrow> Inr data))"

text \<open>
  The outcome of the last request on record: what the upstream answered to it, given the
  requests made before it.
\<close>

definition last_outcome :: "upstream \<Rightarrow> world \<Rightarrow> fetch_result" where
  "last_outcome up w = up (butlast (requests w)) (last (requests w))"

text \<open>The request \<^verbatim>\<open>getIssue\<close> sends, and what it hands its caller for an outcome of it.\<close>

definition get_request :: "Config \<Rightarrow> jsv \<Rightarrow> request" where
  "get_request config issueKey =
     requestOptions config (''issue/'' @ js_to_string issueKey) \<lparr> http_method = None, http_body = None \<rparr>"

definition getIssue_result :: "fetch_result \<Rightarrow> js_thrown + jsv" where
  "getIssue_result outcome =
     bindE (request_result outcome) (\<lambda>issue.
     bindE (issue_field issue ''summary'') (\<lambda>_. shape_issue issue))"

text \<open>The options and the request of the call \<^verbatim>\<open>createIssue\<close> makes first.\<close>

definition create_options ::
  "string \<Rightarrow> string \<Rightarrow> string \<Rightarrow> string option \<Rightarrow> string option \<Rightarrow> string option
   \<Rightarrow> RequestInit" where
  "create_options projectKey issueType summary description assignee priority =
     \<lparr> http_method = Some ''POST'',
       http_body = Some (JObj [(''fields'', JObj (createIssue_fields projectKey issueType
                           summary description assignee priority))]) \<rparr>"

definition create_request ::
  "Config \<Rightarrow> string \<Rightarrow> string \<Rightarrow> string \<Rightarrow> string option \<Rightarrow> string option \<Rightarrow> string option
   \<Rightarrow> request" where
  "create_request config projectKey issueType summary description assignee priority =
     requestOptions config ''issue''
       (create_options projectKey issueType summary description assignee priority)"

text \<open>The request \<^verbatim>\<open>updateIssue\<close> sends first, for the fields object it has built.\<close>

definition update_request :: "Config \<Rightarrow> string \<Rightarrow> (string \<times> jsv) list \<Rightarrow> request" where
  "update_request config issueKey updateFields =
     requestOptions config (''issue/'' @ issueKey)
       \<lparr> http_method = Some ''PUT'', http_body = Some (JObj [(''fields'', JObj updateFields)]) \<rparr>"


section \<open>Example inputs\<close>

definition example_config :: Config where
  "example_config = \<lparr> JIRA_MCP_URL = ''https://jira.example.com'', JIRA_MCP_TOKEN = ''t0k'',
                       JIRA_MCP_PORT = None, JIRA_MCP_DEBUG = Some ''debug'' \<rparr>"

text \<open>A network that refuses every connection, and a server that knows no issue.\<close>

definition connection_refused :: upstream where
  "connection_refused = (\<lambda>_ _. Rejects (JsError ''connection refused''))"

definition not_found :: upstream where
  "not_found = (\<lambda>_ _. Resolves \<lparr> status = 404, statusText = ''Not Found'',
       text_result = Inr ''Issue Does Not Exist'', json_result = Inr JNull \<rparr>)"

text \<open>
  An issue as the upstream API returns it when nobody is assigned, a document that has
  neither a key nor a priority, and an issue whose assignee has an empty display name.
\<close>

definition issue_without_assignee :: jsv where
  "issue_without_assignee =
     JObj [(''key'', JStr ''PROJ-1''),
           (''fields'', JObj [(''summary'', JStr ''Login fails''),
                              (''status'', JObj [(''name'', JStr ''Open'')]),
                              (''assignee'', JNull),
                              (''priority'', JObj [(''name'', JStr ''High'')]),
                              (''reporter'', JObj [(''displayName'', JStr ''Ann''),
                                                   (''emailAddress'', JStr ''ann@example.com'')])])]"

definition issue_without_key :: jsv where
  "issue_without_key =
     JObj [(''id'', JStr ''10001''),
           (''fields'', JObj [(''summary'', JStr ''Login fails''),
                              (''status'', JObj [(''name'', JStr ''Open'')]),
                              (''assignee'', JObj [(''displayName'', JStr ''Bob''),
                                                   (''emailAddress'', JStr ''bob@example.com'')]),
                              (''reporter'', JObj [(''displayName'', JStr ''Ann''),
                                                   (''emailAddress'', JStr ''ann@example.com'')])])]"

definition issue_with_empty_name :: jsv where
  "issue_with_empty_name =
     JObj [(''key'', JStr ''PROJ-2''),
           (''fields'', JObj [(''summary'', JStr ''Login fails''),
                              (''status'', JObj [(''name'', JStr ''Open'')]),
                              (''assignee'', JObj [(''displayName'', JStr []),
                                                   (''emailAddress'', JStr ''bot@example.com'')]),
                              (''priority'', JObj [(''name'', JStr ''High'')]),
                              (''reporter'', JObj [(''displayName'', JStr ''Ann''),
                                                   (''emailAddress'', JStr ''ann@example.com'')])])]"

text \<open>Servers that answer every request with one of these documents.\<close>

definition issue_server :: upstream where
  "issue_server = (\<lambda>_ _. Resolves \<lparr> status = 200, statusText = ''OK'', text_result = Inr [],
       json_result = Inr issue_without_assignee \<rparr>)"

definition keyless_server :: upstream where
  "keyless_server = (\<lambda>_ _. Resolves \<lparr> status = 200, statusText = ''OK'', text_result = Inr [],
       json_result = Inr issue_without_key \<rparr>)"

definition search_server :: upstream where
  "search_server = (\<lambda>_ _. Resolves \<lparr> status = 200, statusText = ''OK'', text_result = Inr [],
       json_result = Inr (JObj [(''startAt'', JNum ''0''), (''maxResults'', JNum ''50''),
                                (''total'', JNum ''2''),
                                (''issues'', JArr [issue_without_assignee, issue_without_key])]) \<rparr>)"

text \<open>
  Four upstream behaviours: a 500 with a body, a rejected \<^verbatim>\<open>fetch\<close> whose message reads
  like the client's text for that 500, a 502 whose body cannot be read because the
  connection is reset, and a \<^verbatim>\<open>fetch\<close> rejected by the same reset.
\<close>

definition server_error :: upstream where
  "server_error = (\<lambda>_ _. Resolves \<lparr> status = 500, statusText = ''Internal Server Error'',
       text_result = Inr ''boom'', json_result = Inl (JsError ''Unexpected token'') \<rparr>)"

definition network_error_like_500 :: upstream where
  "network_error_like_500 =
     (\<lambda>_ _. Rejects (JsError ''JIRA API error: 500 Internal Server Error - boom''))"

definition bad_gateway_reset :: upstream where
  "bad_gateway_reset = (\<lambda>_ _. Resolves \<lparr> status = 502, statusText = ''Bad Gateway'',
       text_result = Inl (JsError ''connection reset''),
       json_result = Inl (JsError ''connection reset'') \<rparr>)"

definition connection_reset :: upstream where
  "connection_reset = (\<lambda>_ _. Rejects (JsError ''connection reset''))"

text \<open>
  A server that creates \<^verbatim>\<open>PROJ-7\<close> on the first request and returns the issue without an
  assignee on the next; and one that rejects the creation.
\<close>

definition creating_server :: upstream where
  "creating_server = (\<lambda>earlier _.
     if earlier = [] then
       Resolves \<lparr> status = 201, statusText = ''Created'', text_result = Inr [],
                  json_result = Inr (JObj [(''id'', JStr ''10007''), (''key'', JStr ''PROJ-7'')]) \<rparr>
     else
       Resolves \<lparr> status = 200, statusText = ''OK'', text_result = Inr [],
                  json_result = Inr issue_without_assignee \<rparr>)"

definition rejecting_server :: upstream where
  "rejecting_server = (\<lambda>_ _. Resolves \<lparr> status = 400, statusText = ''Bad Request'',
       text_result = Inr ''project is required'', json_result = Inr JNull \<rparr>)"

text \<open>
  A server that answers as the transitions endpoint does, with status 204 and no body,
  so that \<^verbatim>\<open>response.json()\<close> rejects.
\<close>

definition no_content_server :: upstream where
  "no_content_server = (\<lambda>_ _. Resolves \<lparr> status = 204, statusText = ''No Content'',
       text_result = Inr [], json_result = Inl (JsError ''Unexpected end of JSON input'') \<rparr>)"

text \<open>Environments: one with only the token set, one with only the URL set.\<close>

definition env_without_url :: env where
  "env_without_url = (\<lambda>_. None)(''JIRA_MCP_TOKEN'' \<mapsto> ''t0k'')"

definition env_without_token :: env where
  "env_without_token = (\<lambda>_. None)(''JIRA_MCP_URL'' \<mapsto> ''https://jira.example.com'',
                                       ''JIRA_MCP_DEBUG'' \<mapsto> ''error'')"

section \<open>Properties of the logger\<close>

lemma indexOf_levels_le:
  "indexOf (map level_value [DEBUG, INFO, WARNING, ERROR]) x \<le> 3"
  by (simp add: Let_def)

text \<open>
  An entry at error level passes the threshold whatever \<^verbatim>\<open>JIRA_MCP_DEBUG\<close> was set to,
  a name of no level included.
\<close>

lemma shouldLog_ERROR [simp]: "shouldLog w ERROR"
  using indexOf_levels_le [of "debugLevel w"] by (simp add: shouldLog_def Let_def)

lemma logger_error_eq:
  "logger_error msg det w =
     w\<lparr> logs := logs w @ [\<lparr> level = ERROR, message = msg, details = det \<rparr>],
        console := console w @ [LoggerEcho ERROR msg (js_or det (JStr []))] \<rparr>"
  by (simp add: logger_error_def logger_log_def)

lemma requests_logger_log [simp]: "requests (logger_log lvl msg det w) = requests w"
  by (simp add: logger_log_def)

lemma debugLevel_logger_log [simp]: "debugLevel (logger_log lvl msg det w) = debugLevel w"
  by (simp add: logger_log_def)

lemma requests_logger [simp]:
  "requests (logger_debug msg det w) = requests w"
  "requests (logger_info msg det w) = requests w"
  "requests (logger_warning msg det w) = requests w"
  "requests (logger_error msg det w) = requests w"
  by (simp_all add: logger_debug_def logger_info_def logger_warning_def logger_error_def)

lemma debugLevel_logger [simp]:
  "debugLevel (logger_debug msg det w) = debugLevel w"
  "debugLevel (logger_info msg det w) = debugLevel w"
  "debugLevel (logger_warning msg det w) = debugLevel w"
  "debugLevel (logger_error msg det w) = debugLevel w"
  by (simp_all add: logger_debug_def logger_info_def logger_warning_def logger_error_def)

section \<open>What a request and a fetch of an issue return\<close>

lemma makeRequest_try_result:
  "\<exists>r w'. makeRequest_try outcome url w = (r, w') \<and> requests w' = requests w \<and>
     debugLevel w' = debugLevel w \<and>
     (case r of Inl e \<Rightarrow> Inl (JsError (''JIRA API request failed: '' @ thrown_message e))
      | Inr d \<Rightarrow> Inr d) = request_result outcome"
  by (simp add: makeRequest_try_def request_result_def Let_def split: fetch_result.splits sum.splits)

lemma makeRequest_result:
  "\<exists>w'. makeRequest config up endpoint options w =
           (request_result (up (requests w) (requestOptions config endpoint options)), w') \<and>
         requests w' = requests w @ [requestOptions config endpoint options] \<and>
         debugLevel w' = debugLevel w"
proof -
  let ?req = "requestOptions config endpoint options"
  let ?url = "endpoint_url config endpoint"
  let ?w1 = "logger_debug ''Making JIRA API request''
               (JObj [(''url'', JStr ?url),
                      (''method'', JStr (case req_method ?req of None \<Rightarrow> ''GET''
                                         | Some m \<Rightarrow> if m = [] then ''GET'' else m))]) w"
  let ?w2 = "?w1\<lparr> requests := requests ?w1 @ [?req] \<rparr>"
  let ?out = "up (requests w) ?req"
  obtain r w3 where mt: "makeRequest_try ?out ?url ?w2 = (r, w3)"
    and rq: "requests w3 = requests ?w2" and dl: "debugLevel w3 = debugLevel ?w2"
    and res: "(case r of
        Inl e \<Rightarrow> Inl (JsError (''JIRA API request failed: '' @ thrown_message e))
      | Inr d \<Rightarrow> Inr d) = request_result ?out"
    using makeRequest_try_result [of ?out ?url ?w2] by blast
  show ?thesis
  proof (cases r)
    case (Inl e)
    then have "request_result ?out = Inl (JsError (''JIRA API request failed: '' @ thrown_message e))"
      using res by simp
    then show ?thesis using mt rq dl Inl by (simp add: makeRequest_def Let_def)
  next
    case (Inr d)
    then have "request_result ?out = Inr d" using res by simp
    then show ?thesis using mt rq dl Inr by (simp add: makeRequest_def Let_def)
  qed
qed

text \<open>The sequencing combinators, unfolded together.\<close>

lemmas io_defs = logIO_def try_catch_def bindIO_def evalIO_def returnIO_def throwIO_def
  log_and_rethrow_def

lemma getIssue_result:
  "\<exists>w'. getIssue config up issueKey w =
           (getIssue_result (up (requests w) (get_request config issueKey)), w') \<and>
         requests w' = requests w @ [get_request config issueKey] \<and>
         debugLevel w' = debugLevel w"
proof -
  let ?w0 = "logger_info ''Fetching JIRA issue'' (JObj [(''issueKey'', issueKey)]) w"
  let ?ep = "''issue/'' @ js_to_string issueKey"
  let ?opts = "\<lparr> http_method = None, http_body = None \<rparr>"
  obtain w1 where mr: "makeRequest config up ?ep ?opts ?w0 =
       (request_result (up (requests w) (get_request config issueKey)), w1)"
    and rq: "requests w1 = requests w @ [get_request config issueKey]"
    and dl: "debugLevel w1 = debugLevel w"
    using makeRequest_result [of config up ?ep ?opts ?w0] by (auto simp: get_request_def)
  show ?thesis
    using mr rq dl
    by (cases "request_result (up (requests w) (get_request config issueKey))")
       (auto simp: getIssue_def getIssue_result_def io_defs bindE_def split: sum.splits)
qed

section \<open>An update without fields\<close>

text \<open>
  C2. When \<^verbatim>\<open>jira_update_issue\<close> is called with summary, description, assignee and
  priority all absent, the handler returns the literal text
  \<^verbatim>\<open>Error: No fields provided to update\<close> and calls \<^verbatim>\<open>fetch\<close> not once: the list of
  requests, and indeed the whole state, is what it was before the call.
\<close>

theorem update_without_fields_short_circuits:
  "jira_update_issue config up issueKey None None None None w =
     (Inr (Text ''Error: No fields provided to update''), w) \<and>
   requests (snd (execute config up (Update_issue issueKey None None None None) w)) = requests w"
  by (simp add: jira_update_issue_def jira_update_issue_try_def filteredFields_def
      try_catch_def returnIO_def)

section \<open>Every failure becomes an error text\<close>

lemma try_tool_catch:
  "try_catch m (tool_catch name) w =
     (case m w of
        (Inl e, w') \<Rightarrow>
          (Inr (Text (''Error: '' @ thrown_message e)),
           logger_error (''Error in '' @ name @ '': '' @ thrown_message e) JUndefined w')
      | (Inr t, w') \<Rightarrow> (Inr t, w'))"
  by (simp add: try_catch_def tool_catch_def logIO_def returnIO_def Let_def
      split: prod.splits sum.splits)




lemma bindIO_fails: "m w = (Inl e, w') \<Longrightarrow> bindIO m k w = (Inl e, w')"
  by (simp add: bindIO_def)













section \<open>The default page size of a search\<close>

text \<open>What \<^verbatim>\<open>searchIssues\<close> hands its caller, and the requests it makes.\<close>

lemma searchIssues_result:
  "\<exists>w'. searchIssues config up jql (Some s) (Some m) w =
          (bindE (encodeURIComponent jql) (\<lambda>encoded.
           bindE (request_result (up (requests w) (requestOptions config
                    (''search?jql='' @ encoded @ ''&startAt='' @ s @ ''&maxResults='' @ m)
                    \<lparr> http_method = None, http_body = None \<rparr>))) (\<lambda>result.
           bindE (js_get result ''total'') (\<lambda>_.
           bindE (bindE (js_get result ''issues'') (\<lambda>is. js_get is ''length'')) (\<lambda>_.
             Inr result)))), w') \<and>
        requests w' = requests w @
          (case encodeURIComponent jql of
             Inl _ \<Rightarrow> []
           | Inr encoded \<Rightarrow>
               [requestOptions config
                  (''search?jql='' @ encoded @ ''&startAt='' @ s @ ''&maxResults='' @ m)
                  \<lparr> http_method = None, http_body = None \<rparr>])"
proof (cases "encodeURIComponent jql")
  case (Inl e)
  then show ?thesis
    by (simp add: searchIssues_def Let_def io_defs bindE_def)
next
  case (Inr encoded)
  let ?ep = "''search?jql='' @ encoded @ ''&startAt='' @ s @ ''&maxResults='' @ m"
  let ?opts = "\<lparr> http_method = None, http_body = None \<rparr>"
  let ?w0 = "logger_info ''Searching JIRA issues''
                  (JObj [(''jql'', JStr jql), (''startAt'', JNum s), (''maxResults'', JNum m)]) w"
  obtain w1 where mr: "makeRequest config up ?ep ?opts ?w0 =
       (request_result (up (requests w) (requestOptions config ?ep ?opts)), w1)"
    and rq: "requests w1 = requests w @ [requestOptions config ?ep ?opts]"
    using makeRequest_result [of config up ?ep ?opts ?w0] by auto
  show ?thesis
    using Inr mr rq
    by (cases "request_result (up (requests w) (requestOptions config ?ep ?opts))")
       (auto simp: searchIssues_def Let_def io_defs bindE_def split: sum.splits)
qed

lemma requests_tool_catch [simp]:
  "requests (snd (tool_catch name e w)) = requests w"
  by (simp add: tool_catch_def logIO_def returnIO_def Let_def)





text \<open>
  A query that holds a lone surrogate (here \<open>U+D800\<close>): nothing is sent, and the call
  answers with the error text.
\<close>

lemma search_with_lone_surrogate:
  "execute example_config not_found (Search [CHR 0xED, CHR 0xA0, CHR 0x80] None None)
     (Logger_new (Some ''error'')) =
   (Inr (Text ''Error: URI malformed''),
    \<lparr> debugLevel = ''error'',
      logs = [\<lparr> level = ERROR, message = ''Failed to search JIRA issues'',
                details = JObj [(''jql'', JStr [CHR 0xED, CHR 0xA0, CHR 0x80]),
                                (''error'', JStr ''URI malformed'')] \<rparr>,
              \<lparr> level = ERROR, message = ''Error in jira_search: URI malformed'',
                details = JUndefined \<rparr>],
      console = [LoggerEcho ERROR ''Failed to search JIRA issues''
                   (JObj [(''jql'', JStr [CHR 0xED, CHR 0xA0, CHR 0x80]),
                          (''error'', JStr ''URI malformed'')]),
                 LoggerEcho ERROR ''Error in jira_search: URI malformed'' (JStr [])],
      requests = [] \<rparr>)"
  by code_simp

section \<open>How a request fails\<close>

lemma logs_logger_error:
  "logs (logger_error msg det w) = logs w @ [\<lparr> level = ERROR, message = msg, details = det \<rparr>]"
  by (simp add: logger_error_eq)

lemma request_result_Inr:
  "(\<exists>d. request_result outcome = Inr d) \<longleftrightarrow>
   (\<exists>resp d. outcome = Resolves resp \<and> response_ok resp \<and> json_result resp = Inr d)"
  by (cases outcome) (auto simp: request_result_def split: sum.splits)

lemma makeRequest_rejected:
  assumes "up (requests w) (requestOptions config endpoint options) = Rejects e"
  shows "fst (makeRequest config up endpoint options w) =
           Inl (JsError (''JIRA API request failed: '' @ thrown_message e))"
    and "last (logs (snd (makeRequest config up endpoint options w))) =
           \<lparr> level = ERROR, message = ''JIRA API request failed: '' @ thrown_message e,
             details = JObj [(''url'', JStr (endpoint_url config endpoint)),
                             (''error'', JStr (thrown_message e))] \<rparr>"
  using assms
  by (simp_all add: makeRequest_def makeRequest_try_def Let_def logs_logger_error)

lemma makeRequest_status:
  assumes "up (requests w) (requestOptions config endpoint options) = Resolves resp"
    and "\<not> response_ok resp" and "text_result resp = Inr errorText"
  shows "fst (makeRequest config up endpoint options w) =
           Inl (JsError (''JIRA API request failed: JIRA API error: '' @ show_nat (status resp) @
                         '' '' @ statusText resp @ '' - '' @ errorText))"
    and "last (logs (snd (makeRequest config up endpoint options w))) =
           \<lparr> level = ERROR,
             message = ''JIRA API request failed: JIRA API error: '' @ show_nat (status resp) @
                       '' '' @ statusText resp @ '' - '' @ errorText,
             details = JObj [(''url'', JStr (endpoint_url config endpoint)),
                             (''error'', JStr (''JIRA API error: '' @ show_nat (status resp) @
                                '' '' @ statusText resp @ '' - '' @ errorText))] \<rparr>"
    and "\<lparr> level = ERROR,
           message = ''JIRA API error: '' @ show_nat (status resp) @ '' '' @ statusText resp @
                     '' - '' @ errorText,
           details = JObj [(''url'', JStr (endpoint_url config endpoint)),
                           (''status'', JNum (show_nat (status resp)))] \<rparr>
         \<in> set (logs (snd (makeRequest config up endpoint options w)))"
  using assms
  by (simp_all add: makeRequest_def makeRequest_try_def Let_def logs_logger_error)

text \<open>
  C5, as amended. For every request of the client: a status outside 200 to 299 whose
  body can be read makes \<^verbatim>\<open>makeRequest\<close> throw a plain \<^verbatim>\<open>Error\<close> whose message is
  \<^verbatim>\<open>JIRA API request failed: JIRA API error: <status> <statusText> - <body>\<close>; a rejected
  \<^verbatim>\<open>fetch\<close> makes it throw a plain \<^verbatim>\<open>Error\<close> whose message is
  \<^verbatim>\<open>JIRA API request failed: <message of the cause>\<close>. In both cases the last log entry is
  at error level and carries that message, and neither failure is swallowed:
  \<^verbatim>\<open>makeRequest\<close> returns a value exactly when the status is a success and the body parses
  as JSON. There are no two classes of failure: both are \<^verbatim>\<open>Error\<close>s with the same
  prefix, told apart by the rest of the message only.
\<close>

theorem request_failures:
  "(\<forall>resp errorText.
      up (requests w) (requestOptions config endpoint options) = Resolves resp \<and>
      \<not> response_ok resp \<and> text_result resp = Inr errorText \<longrightarrow>
      fst (makeRequest config up endpoint options w) =
        Inl (JsError (''JIRA API request failed: JIRA API error: '' @ show_nat (status resp) @
                      '' '' @ statusText resp @ '' - '' @ errorText)) \<and>
      level (last (logs (snd (makeRequest config up endpoint options w)))) = ERROR \<and>
      message (last (logs (snd (makeRequest config up endpoint options w)))) =
        ''JIRA API request failed: JIRA API error: '' @ show_nat (status resp) @
        '' '' @ statusText resp @ '' - '' @ errorText) \<and>
   (\<forall>e. up (requests w) (requestOptions config endpoint options) = Rejects e \<longrightarrow>
      fst (makeRequest config up endpoint options w) =
        Inl (JsError (''JIRA API request failed: '' @ thrown_message e)) \<and>
      level (last (logs (snd (makeRequest config up endpoint options w)))) = ERROR \<and>
      message (last (logs (snd (makeRequest config up endpoint options w)))) =
        ''JIRA API request failed: '' @ thrown_message e) \<and>
   ((\<exists>d. fst (makeRequest config up endpoint options w) = Inr d) \<longleftrightarrow>
    (\<exists>resp d. up (requests w) (requestOptions config endpoint options) = Resolves resp \<and>
              response_ok resp \<and> json_result resp = Inr d))"
proof (intro conjI allI impI)
  fix resp errorText
  assume a: "up (requests w) (requestOptions config endpoint options) = Resolves resp \<and>
      \<not> response_ok resp \<and> text_result resp = Inr errorText"
  then have o: "up (requests w) (requestOptions config endpoint options) = Resolves resp"
    and n: "\<not> response_ok resp" and t: "text_result resp = Inr errorText" by simp_all
  show "fst (makeRequest config up endpoint options w) =
        Inl (JsError (''JIRA API request failed: JIRA API error: '' @ show_nat (status resp) @
                      '' '' @ statusText resp @ '' - '' @ errorText))"
    by (rule makeRequest_status(1) [where up = up, OF o n t])
  show "level (last (logs (snd (makeRequest config up endpoint options w)))) = ERROR"
    by (simp add: makeRequest_status(2) [where up = up, OF o n t])
  show "message (last (logs (snd (makeRequest config up endpoint options w)))) =
        ''JIRA API request failed: JIRA API error: '' @ show_nat (status resp) @
        '' '' @ statusText resp @ '' - '' @ errorText"
    by (simp add: makeRequest_status(2) [where up = up, OF o n t])
next
  fix e
  assume r: "up (requests w) (requestOptions config endpoint options) = Rejects e"
  show "fst (makeRequest config up endpoint options w) =
        Inl (JsError (''JIRA API request failed: '' @ thrown_message e))"
    by (rule makeRequest_rejected(1) [where up = up, OF r])
  show "level (last (logs (snd (makeRequest config up endpoint options w)))) = ERROR"
    by (simp add: makeRequest_rejected(2) [where up = up, OF r])
  show "message (last (logs (snd (makeRequest config up endpoint options w)))) =
        ''JIRA API request failed: '' @ thrown_message e"
    by (simp add: makeRequest_rejected(2) [where up = up, OF r])
next
  have "fst (makeRequest config up endpoint options w) =
        request_result (up (requests w) (requestOptions config endpoint options))"
    using makeRequest_result [of config up endpoint options w] by auto
  then show "(\<exists>d. fst (makeRequest config up endpoint options w) = Inr d) \<longleftrightarrow>
    (\<exists>resp d. up (requests w) (requestOptions config endpoint options) = Resolves resp \<and>
              response_ok resp \<and> json_result resp = Inr d)"
    by (simp only: request_result_Inr)
qed

text \<open>A 404 and a refused connection, each on a fetch of \<^verbatim>\<open>issue/PROJ-1\<close>.\<close>

theorem request_failures_witness:
  "fst (makeRequest example_config not_found ''issue/PROJ-1''
          \<lparr> http_method = None, http_body = None \<rparr> (Logger_new None)) =
     Inl (JsError ''JIRA API request failed: JIRA API error: 404 Not Found - Issue Does Not Exist'') \<and>
   fst (makeRequest example_config connection_refused ''issue/PROJ-1''
          \<lparr> http_method = None, http_body = None \<rparr> (Logger_new None)) =
     Inl (JsError ''JIRA API request failed: connection refused'')"
proof -
  let ?o = "\<lparr> http_method = None, http_body = None \<rparr>"
  let ?r = "\<lparr> status = 404, statusText = ''Not Found'',
       text_result = Inr ''Issue Does Not Exist'', json_result = Inr JNull \<rparr>"
  have s: "show_nat 404 = ''404''" by code_simp
  have "not_found (requests (Logger_new None)) (requestOptions example_config ''issue/PROJ-1'' ?o) =
          Resolves ?r \<and> \<not> response_ok ?r \<and> text_result ?r = Inr ''Issue Does Not Exist''"
    by (simp add: not_found_def response_ok_def)
  with request_failures [of not_found "Logger_new None" example_config "''issue/PROJ-1''" ?o]
  have "fst (makeRequest example_config not_found ''issue/PROJ-1'' ?o (Logger_new None)) =
        Inl (JsError (''JIRA API request failed: JIRA API error: '' @ show_nat (status ?r) @
                      '' '' @ statusText ?r @ '' - '' @ ''Issue Does Not Exist''))"
    by blast
  moreover
  have "connection_refused (requests (Logger_new None))
          (requestOptions example_config ''issue/PROJ-1'' ?o) = Rejects (JsError ''connection refused'')"
    by (simp add: connection_refused_def)
  with request_failures [of connection_refused "Logger_new None" example_config "''issue/PROJ-1''" ?o]
  have "fst (makeRequest example_config connection_refused ''issue/PROJ-1'' ?o (Logger_new None)) =
        Inl (JsError (''JIRA API request failed: '' @ thrown_message (JsError ''connection refused'')))"
    by blast
  ultimately show ?thesis by (simp add: s)
qed

text \<open>
  C5 as stated fails. A caller of \<^verbatim>\<open>makeRequest\<close> receives the same thrown value from a
  500 and from a rejected \<^verbatim>\<open>fetch\<close> with a like message, so it cannot tell the two apart;
  and a 502 whose body cannot be read throws exactly what the network failure of the
  same name throws, an \<^verbatim>\<open>Error\<close> that carries neither the status code nor the status
  text.
\<close>

theorem failure_kinds_coincide:
  "fst (makeRequest example_config server_error ''issue/PROJ-1''
          \<lparr> http_method = None, http_body = None \<rparr> (Logger_new None)) =
   fst (makeRequest example_config network_error_like_500 ''issue/PROJ-1''
          \<lparr> http_method = None, http_body = None \<rparr> (Logger_new None)) \<and>
   fst (makeRequest example_config bad_gateway_reset ''issue/PROJ-1''
          \<lparr> http_method = None, http_body = None \<rparr> (Logger_new None)) =
     Inl (JsError ''JIRA API request failed: connection reset'') \<and>
   fst (makeRequest example_config connection_reset ''issue/PROJ-1''
          \<lparr> http_method = None, http_body = None \<rparr> (Logger_new None)) =
     Inl (JsError ''JIRA API request failed: connection reset'')"
  by code_simp

section \<open>Create, then fetch\<close>

lemma createIssue_result:
  fixes config up projectKey issueType summary description assignee priority w
  defines "post \<equiv> create_request config projectKey issueType summary description assignee priority"
  shows "\<exists>w'. createIssue config up projectKey issueType summary description assignee priority w =
           (bindE (request_result (up (requests w) post)) (\<lambda>result.
            bindE (js_get result ''key'') (\<lambda>key.
              getIssue_result (up (requests w @ [post]) (get_request config key)))), w') \<and>
         requests w' = requests w @ post #
           (case bindE (request_result (up (requests w) post)) (\<lambda>result. js_get result ''key'') of
              Inl _ \<Rightarrow> [] | Inr key \<Rightarrow> [get_request config key])"
proof -
  let ?w0 = "logger_info ''Creating JIRA issue''
              (JObj [(''projectKey'', JStr projectKey), (''issueType'', JStr issueType),
                     (''summary'', JStr summary)]) w"
  let ?opts = "\<lparr> http_method = Some ''POST'',
         http_body = Some (JObj [(''fields'', JObj (createIssue_fields projectKey issueType
                             summary description assignee priority))]) \<rparr>"
  obtain w1 where mr: "makeRequest config up ''issue'' ?opts ?w0 =
       (request_result (up (requests w) post), w1)"
    and rq: "requests w1 = requests w @ [post]"
    using makeRequest_result [of config up "''issue''" ?opts ?w0]
    by (auto simp: post_def create_request_def create_options_def)
  show ?thesis
  proof (cases "request_result (up (requests w) post)")
    case (Inl e)
    with mr rq show ?thesis
      by (simp add: createIssue_def io_defs bindE_def)
  next
    case (Inr result)
    show ?thesis
    proof (cases "js_get result ''key''")
      case (Inl e)
      with Inr mr rq show ?thesis
        by (simp add: createIssue_def io_defs bindE_def)
    next
      case k: (Inr key)
      let ?w2 = "logger_info ''Successfully created JIRA issue''
                    (JObj [(''issueKey'', key), (''projectKey'', JStr projectKey),
                           (''summary'', JStr summary)]) w1"
      obtain w3 where gi: "getIssue config up key ?w2 =
           (getIssue_result (up (requests w @ [post]) (get_request config key)), w3)"
        and rq3: "requests w3 = requests w @ [post] @ [get_request config key]"
        using getIssue_result [of config up key ?w2] rq by auto
      show ?thesis
        using Inr k mr gi rq3
        by (cases "getIssue_result (up (requests w @ [post]) (get_request config key))")
           (simp_all add: createIssue_def io_defs bindE_def)
    qed
  qed
qed

text \<open>The text a handler makes of what the client hands it.\<close>

lemma jira_get_issue_fst:
  "fst (jira_get_issue config up issueKey w) =
     Inr (case getIssue_result (up (requests w) (get_request config (JStr issueKey))) of
            Inl e \<Rightarrow> Text (''Error: '' @ thrown_message e) | Inr issue \<Rightarrow> JsonText (json_of issue))"
  using getIssue_result [of config up "JStr issueKey" w]
  by (auto simp: jira_get_issue_def jira_get_issue_try_def try_tool_catch bindIO_def returnIO_def
      split: sum.splits)

lemma jira_create_issue_fst:
  "\<exists>w'. createIssue config up projectKey issueType summary description assignee priority w =
          (r, w') \<Longrightarrow>
   fst (jira_create_issue config up projectKey issueType summary description assignee priority w) =
     Inr (case r of Inl e \<Rightarrow> Text (''Error: '' @ thrown_message e) | Inr issue \<Rightarrow> JsonText (json_of issue))"
  by (auto simp: jira_create_issue_def jira_create_issue_try_def try_tool_catch bindIO_def
      returnIO_def split: sum.splits)

lemma jira_create_issue_requests:
  "requests (snd (jira_create_issue config up projectKey issueType summary description assignee
                    priority w)) =
   requests (snd (createIssue config up projectKey issueType summary description assignee
                    priority w))"
  by (cases "createIssue config up projectKey issueType summary description assignee priority w")
     (auto simp: jira_create_issue_def jira_create_issue_try_def try_tool_catch bindIO_def
        returnIO_def split: sum.splits)

text \<open>
  C6. For every call of \<^verbatim>\<open>jira_create_issue\<close>: if the creation request (the POST to
  \<^verbatim>\<open>issue\<close>) fails, it is the only request of the call, so no follow-up fetch is made,
  and the call returns the error text. If it succeeds and its body has a string
  \<^verbatim>\<open>key\<close>, the call makes exactly one more request, the fetch of \<^verbatim>\<open>issue/<key>\<close>, and
  returns the very text \<^verbatim>\<open>jira_get_issue\<close> would return for that key at that moment: the
  shaped summary of the fetched issue (or the error text, if the fetch fails). What a
  request returns depends on the state only through the requests made before it.
\<close>

theorem create_then_fetch:
  "(\<forall>e. fst (makeRequest config up ''issue''
              (create_options projectKey issueType summary description assignee priority) w) =
           Inl e \<longrightarrow>
      requests (snd (jira_create_issue config up projectKey issueType summary description
                       assignee priority w)) =
        requests w @
        [create_request config projectKey issueType summary description assignee priority] \<and>
      fst (jira_create_issue config up projectKey issueType summary description assignee
             priority w) = Inr (Text (''Error: '' @ thrown_message e))) \<and>
   (\<forall>result key.
      fst (makeRequest config up ''issue''
             (create_options projectKey issueType summary description assignee priority) w) =
        Inr result \<and>
      js_get result ''key'' = Inr (JStr key) \<longrightarrow>
      requests (snd (jira_create_issue config up projectKey issueType summary description
                       assignee priority w)) =
        requests w @
        [create_request config projectKey issueType summary description assignee priority,
         get_request config (JStr key)] \<and>
      (\<forall>w1. requests w1 =
              requests w @
              [create_request config projectKey issueType summary description assignee priority]
         \<longrightarrow> fst (jira_create_issue config up projectKey issueType summary description assignee
                    priority w) = fst (jira_get_issue config up key w1)))"
proof -
  let ?post = "create_request config projectKey issueType summary description assignee priority"
  let ?opts = "create_options projectKey issueType summary description assignee priority"
  let ?tool = "jira_create_issue config up projectKey issueType summary description assignee
                 priority w"
  have mk: "fst (makeRequest config up ''issue'' ?opts w) = request_result (up (requests w) ?post)"
    using makeRequest_result [of config up "''issue''" ?opts w] by (auto simp: create_request_def)
  obtain w' where
    ci: "createIssue config up projectKey issueType summary description assignee priority w =
           (bindE (request_result (up (requests w) ?post)) (\<lambda>result.
            bindE (js_get result ''key'') (\<lambda>key.
              getIssue_result (up (requests w @ [?post]) (get_request config key)))), w')" and
    rq: "requests w' = requests w @ ?post #
           (case bindE (request_result (up (requests w) ?post)) (\<lambda>result. js_get result ''key'') of
              Inl _ \<Rightarrow> [] | Inr key \<Rightarrow> [get_request config key])"
    using createIssue_result [of config up projectKey issueType summary description assignee
        priority w] by blast
  have tool_rq: "requests (snd ?tool) = requests w'"
    using ci by (simp add: jira_create_issue_requests)
  have tool_fst: "fst ?tool =
      Inr (case bindE (request_result (up (requests w) ?post)) (\<lambda>result.
                 bindE (js_get result ''key'') (\<lambda>key.
                   getIssue_result (up (requests w @ [?post]) (get_request config key)))) of
             Inl e \<Rightarrow> Text (''Error: '' @ thrown_message e) | Inr issue \<Rightarrow> JsonText (json_of issue))"
    using ci by (intro jira_create_issue_fst) blast
  show ?thesis
  proof (intro conjI allI impI)
    fix e
    assume "fst (makeRequest config up ''issue'' ?opts w) = Inl e"
    then have f: "request_result (up (requests w) ?post) = Inl e" using mk by simp
    show "requests (snd ?tool) = requests w @ [?post]"
      using tool_rq rq f by (simp add: bindE_def)
    show "fst ?tool = Inr (Text (''Error: '' @ thrown_message e))"
      using tool_fst f by (simp add: bindE_def)
  next
    fix result key
    assume "fst (makeRequest config up ''issue'' ?opts w) = Inr result \<and>
            js_get result ''key'' = Inr (JStr key)"
    then have f: "request_result (up (requests w) ?post) = Inr result"
      and k: "js_get result ''key'' = Inr (JStr key)" using mk by simp_all
    show "requests (snd ?tool) = requests w @ [?post, get_request config (JStr key)]"
      using tool_rq rq f k by (simp add: bindE_def)
    fix w1 :: world
    assume "requests w1 = requests w @ [?post]"
    then show "fst ?tool = fst (jira_get_issue config up key w1)"
      using tool_fst f k by (simp add: bindE_def jira_get_issue_fst)
  qed
qed

text \<open>
  A rejected creation makes one request; an accepted one is followed by the fetch of
  \<^verbatim>\<open>issue/PROJ-7\<close>, whose summary is returned.
\<close>

theorem create_then_fetch_witness:
  "map req_url (requests (snd (jira_create_issue example_config rejecting_server
       ''PROJ'' ''Bug'' ''Login fails'' None None None (Logger_new None)))) =
     [''https://jira.example.com/rest/api/2/issue''] \<and>
   map req_url (requests (snd (jira_create_issue example_config creating_server
       ''PROJ'' ''Bug'' ''Login fails'' None None None (Logger_new None)))) =
     [''https://jira.example.com/rest/api/2/issue'',
      ''https://jira.example.com/rest/api/2/issue/PROJ-7''] \<and>
   fst (jira_create_issue example_config creating_server
       ''PROJ'' ''Bug'' ''Login fails'' None None None (Logger_new None)) =
     Inr (JsonText (JObj [(''key'', JStr ''PROJ-1''), (''summary'', JStr ''Login fails''),
                (''status'', JStr ''Open''), (''assignee'', JStr ''Unassigned''),
                (''priority'', JStr ''High''), (''reporter'', JStr ''Ann'')]))"
proof -
  let ?w = "Logger_new None"
  let ?opts = "create_options ''PROJ'' ''Bug'' ''Login fails'' None None None"
  let ?post = "create_request example_config ''PROJ'' ''Bug'' ''Login fails'' None None None"
  let ?w1 = "?w\<lparr> requests := [?post] \<rparr>"
  have r0: "requests ?w = []" by (simp add: Logger_new_def)
  have u: "req_url ?post = ''https://jira.example.com/rest/api/2/issue''"
    "req_url (get_request example_config (JStr ''PROJ-7'')) =
       ''https://jira.example.com/rest/api/2/issue/PROJ-7''"
    by (simp_all add: create_request_def get_request_def requestOptions_def endpoint_url_def
        example_config_def)
  have f: "fst (makeRequest example_config rejecting_server ''issue'' ?opts ?w) =
      Inl (JsError ''JIRA API request failed: JIRA API error: 400 Bad Request - project is required'')"
    by code_simp
  have s: "fst (makeRequest example_config creating_server ''issue'' ?opts ?w) =
      Inr (JObj [(''id'', JStr ''10007''), (''key'', JStr ''PROJ-7'')]) \<and>
      js_get (JObj [(''id'', JStr ''10007''), (''key'', JStr ''PROJ-7'')]) ''key'' =
      Inr (JStr ''PROJ-7'')"
    by code_simp
  have g: "fst (jira_get_issue example_config creating_server ''PROJ-7'' ?w1) =
      Inr (JsonText (JObj [(''key'', JStr ''PROJ-1''), (''summary'', JStr ''Login fails''),
                (''status'', JStr ''Open''), (''assignee'', JStr ''Unassigned''),
                (''priority'', JStr ''High''), (''reporter'', JStr ''Ann'')]))"
    by code_simp
  note c1 = create_then_fetch [of example_config rejecting_server "''PROJ''" "''Bug''"
      "''Login fails''" None None None ?w]
  note c2 = create_then_fetch [of example_config creating_server "''PROJ''" "''Bug''"
      "''Login fails''" None None None ?w]
  from c1 f have "requests (snd (jira_create_issue example_config rejecting_server
       ''PROJ'' ''Bug'' ''Login fails'' None None None ?w)) = requests ?w @ [?post]"
    by blast
  moreover from c2 s have "requests (snd (jira_create_issue example_config creating_server
       ''PROJ'' ''Bug'' ''Login fails'' None None None ?w)) =
       requests ?w @ [?post, get_request example_config (JStr ''PROJ-7'')]"
    by blast
  moreover from c2 s have "\<forall>w1. requests w1 = requests ?w @ [?post] \<longrightarrow>
       fst (jira_create_issue example_config creating_server
       ''PROJ'' ''Bug'' ''Login fails'' None None None ?w) =
       fst (jira_get_issue example_config creating_server ''PROJ-7'' w1)"
    by blast
  then have "fst (jira_create_issue example_config creating_server
       ''PROJ'' ''Bug'' ''Login fails'' None None None ?w) =
       fst (jira_get_issue example_config creating_server ''PROJ-7'' ?w1)"
    using r0 by simp
  ultimately show ?thesis
    using g r0 u by simp
qed

section \<open>The body of an update\<close>

lemma updateIssue_requests:
  "\<exists>rest. requests (snd (updateIssue config up issueKey ff w)) =
     requests w @ update_request config issueKey (foldl updateIssue_entry [] ff) # rest \<and>
     (rest = [] \<or> rest = [get_request config (JStr issueKey)])"
proof -
  let ?w0 = "logger_info ''Updating JIRA issue''
              (JObj [(''issueKey'', JStr issueKey), (''fields'', JArr (map (JStr \<circ> fst) ff))]) w"
  let ?opts = "\<lparr> http_method = Some ''PUT'',
                  http_body = Some (JObj [(''fields'', JObj (foldl updateIssue_entry [] ff))]) \<rparr>"
  let ?put = "update_request config issueKey (foldl updateIssue_entry [] ff)"
  obtain w1 where mr: "makeRequest config up (''issue/'' @ issueKey) ?opts ?w0 =
       (request_result (up (requests w) ?put), w1)"
    and rq: "requests w1 = requests w @ [?put]"
    using makeRequest_result [of config up "''issue/'' @ issueKey" ?opts ?w0]
    by (auto simp: update_request_def)
  show ?thesis
  proof (cases "request_result (up (requests w) ?put)")
    case (Inl e)
    with mr rq show ?thesis
      by (simp add: updateIssue_def io_defs Let_def)
  next
    case (Inr result)
    let ?w2 = "logger_info ''Successfully updated JIRA issue''
                       (JObj [(''issueKey'', JStr issueKey)]) w1"
    obtain w3 where gi: "getIssue config up (JStr issueKey) ?w2 =
           (getIssue_result (up (requests w @ [?put]) (get_request config (JStr issueKey))), w3)"
      and rq3: "requests w3 = requests w @ [?put] @ [get_request config (JStr issueKey)]"
      using getIssue_result [of config up "JStr issueKey" ?w2] rq by auto
    show ?thesis
      using Inr mr gi rq3
      by (cases "getIssue_result (up (requests w @ [?put]) (get_request config (JStr issueKey)))")
         (simp_all add: updateIssue_def io_defs Let_def)
  qed
qed

lemma updateFields_built:
  "foldl updateIssue_entry [] (filteredFields summary description assignee priority) =
     (case summary of None \<Rightarrow> [] | Some s \<Rightarrow> [(''summary'', JStr s)]) @
     (case description of None \<Rightarrow> [] | Some d \<Rightarrow> [(''description'', JStr d)]) @
     (case assignee of None \<Rightarrow> [] | Some a \<Rightarrow> [(''assignee'', JObj [(''name'', JStr a)])]) @
     (case priority of None \<Rightarrow> [] | Some p \<Rightarrow> [(''priority'', JObj [(''name'', JStr p)])])"
  by (cases summary; cases description; cases assignee; cases priority)
     (simp_all add: filteredFields_def updateIssue_entry_def)

lemma filteredFields_empty:
  "length (filteredFields summary description assignee priority) = 0 \<longleftrightarrow>
     summary = None \<and> description = None \<and> assignee = None \<and> priority = None"
  by (cases summary; cases description; cases assignee; cases priority)
     (simp_all add: filteredFields_def)

lemma jira_update_issue_requests:
  assumes "length (filteredFields summary description assignee priority) \<noteq> 0"
  shows "requests (snd (jira_update_issue config up issueKey summary description assignee priority w)) =
     requests (snd (updateIssue config up issueKey
                      (filteredFields summary description assignee priority) w))"
  using assms
  by (cases "updateIssue config up issueKey (filteredFields summary description assignee priority) w")
     (auto simp: jira_update_issue_def jira_update_issue_try_def try_tool_catch bindIO_def
        returnIO_def Let_def split: sum.splits)

text \<open>
  C7. For every call of \<^verbatim>\<open>jira_update_issue\<close> with at least one of summary,
  description, assignee and priority supplied, the call's first request is the PUT to
  \<^verbatim>\<open>issue/<issueKey>\<close>, and the \<^verbatim>\<open>fields\<close> object of its body holds exactly the supplied
  fields, in the order of the schema: summary and description as the strings given (an
  empty string included), assignee and priority as \<^verbatim>\<open>{name: value}\<close>. An absent field
  has no entry. The PUT is followed by at most one request, the fetch of the issue.
\<close>

theorem update_body_has_supplied_fields:
  assumes "summary \<noteq> None \<or> description \<noteq> None \<or> assignee \<noteq> None \<or> priority \<noteq> None"
  shows "\<exists>rest.
     requests (snd (jira_update_issue config up issueKey summary description assignee priority w)) =
       requests w @
       \<lparr> req_url = JIRA_MCP_URL config @ ''/rest/api/2/issue/'' @ issueKey,
         req_method = Some ''PUT'',
         req_headers = [(''Authorization'', ''Bearer '' @ JIRA_MCP_TOKEN config),
                        (''Content-Type'', ''application/json''),
                        (''Accept'', ''application/json'')],
         req_body = Some (JObj [(''fields'', JObj (
           (case summary of None \<Rightarrow> [] | Some s \<Rightarrow> [(''summary'', JStr s)]) @
           (case description of None \<Rightarrow> [] | Some d \<Rightarrow> [(''description'', JStr d)]) @
           (case assignee of None \<Rightarrow> [] | Some a \<Rightarrow> [(''assignee'', JObj [(''name'', JStr a)])]) @
           (case priority of None \<Rightarrow> []
            | Some p \<Rightarrow> [(''priority'', JObj [(''name'', JStr p)])])))]) \<rparr> # rest \<and>
     (rest = [] \<or> rest = [get_request config (JStr issueKey)])"
proof -
  have ne: "length (filteredFields summary description assignee priority) \<noteq> 0"
    using assms by (simp only: filteredFields_empty) blast
  show ?thesis
    using updateIssue_requests [of config up issueKey
        "filteredFields summary description assignee priority" w]
    by (simp only: jira_update_issue_requests [OF ne] updateFields_built)
       (simp add: update_request_def requestOptions_def endpoint_url_def)
qed

text \<open>
  The input \<^verbatim>\<open>{summary: "x", assignee: undefined}\<close>: the transmitted \<^verbatim>\<open>fields\<close> object
  contains only \<^verbatim>\<open>summary\<close>.
\<close>

theorem update_body_has_supplied_fields_witness:
  "req_body (hd (requests (snd (jira_update_issue example_config connection_refused ''PROJ-1''
       (Some ''x'') None None None (Logger_new None))))) =
     Some (JObj [(''fields'', JObj [(''summary'', JStr ''x'')])])"
proof -
  have "Some ''x'' \<noteq> None \<or> (None :: string option) \<noteq> None \<or> (None :: string option) \<noteq> None \<or>
        (None :: string option) \<noteq> None"
    by simp
  from update_body_has_supplied_fields [OF this, of example_config connection_refused "''PROJ-1''"
      "Logger_new None"]
  show ?thesis by (auto simp: Logger_new_def)
qed

section \<open>The summaries the tools return\<close>

lemma js_get_opt_Inr: "js_get v k = Inr x \<Longrightarrow> js_get_opt v k = Inr x"
  by (cases v) (simp_all add: js_get_opt_def)

lemma issue_field_path:
  "issue_field issue k = Inr v \<Longrightarrow> path_value issue (''fields'' # k # ks) = path_value v ks"
  by (auto simp: issue_field_def bindE_def js_get_opt_Inr split: sum.splits)

lemma issue_field_or_path:
  "issue_field_or issue k p d = Inr v \<Longrightarrow>
     v = js_or (path_value issue [''fields'', k, p]) (JStr d)"
  by (auto simp: issue_field_or_def bindE_def dest: issue_field_path [where ks = "[p]"]
      split: sum.splits)

lemma shape_issue_paths:
  assumes "shape_issue issue = Inr s"
  shows "s = JObj [(''key'', path_value issue [''key'']),
                   (''summary'', path_value issue [''fields'', ''summary'']),
                   (''status'', path_value issue [''fields'', ''status'', ''name'']),
                   (''assignee'', js_or (path_value issue [''fields'', ''assignee'', ''displayName''])
                                    (JStr ''Unassigned'')),
                   (''priority'', js_or (path_value issue [''fields'', ''priority'', ''name''])
                                    (JStr ''None'')),
                   (''reporter'', js_or (path_value issue [''fields'', ''reporter'', ''displayName''])
                                    (JStr ''Unknown''))]"
proof -
  from assms obtain key summary st status assignee priority reporter where
    k: "js_get issue ''key'' = Inr key" and
    su: "issue_field issue ''summary'' = Inr summary" and
    st: "issue_field issue ''status'' = Inr st" and
    sn: "js_get st ''name'' = Inr status" and
    a: "issue_field_or issue ''assignee'' ''displayName'' ''Unassigned'' = Inr assignee" and
    p: "issue_field_or issue ''priority'' ''name'' ''None'' = Inr priority" and
    r: "issue_field_or issue ''reporter'' ''displayName'' ''Unknown'' = Inr reporter" and
    s: "s = JObj [(''key'', key), (''summary'', summary), (''status'', status),
                  (''assignee'', assignee), (''priority'', priority), (''reporter'', reporter)]"
    by (auto simp: shape_issue_def bindE_def split: sum.splits)
  have "path_value issue [''key''] = key" using k by (simp add: js_get_opt_Inr)
  moreover have "path_value issue [''fields'', ''summary''] = summary"
    using issue_field_path [OF su, of "[]"] by simp
  moreover have "path_value issue [''fields'', ''status'', ''name''] = status"
    using issue_field_path [OF st, of "[''name'']"] sn by (simp add: js_get_opt_Inr)
  ultimately show ?thesis
    using s issue_field_or_path [OF a] issue_field_or_path [OF p] issue_field_or_path [OF r]
    by simp
qed

lemma bindE_Inr: "bindE m f = Inr y \<Longrightarrow> \<exists>x. m = Inr x \<and> f x = Inr y"
  by (cases m) (simp_all add: bindE_def)

lemma updateIssue_result:
  fixes config up issueKey ff w
  defines "put \<equiv> update_request config issueKey (foldl updateIssue_entry [] ff)"
  shows "\<exists>w'. updateIssue config up issueKey ff w =
           (bindE (request_result (up (requests w) put)) (\<lambda>_.
              getIssue_result (up (requests w @ [put]) (get_request config (JStr issueKey)))), w') \<and>
         requests w' = requests w @ put #
           (case request_result (up (requests w) put) of
              Inl _ \<Rightarrow> [] | Inr _ \<Rightarrow> [get_request config (JStr issueKey)])"
proof -
  let ?w0 = "logger_info ''Updating JIRA issue''
              (JObj [(''issueKey'', JStr issueKey), (''fields'', JArr (map (JStr \<circ> fst) ff))]) w"
  let ?opts = "\<lparr> http_method = Some ''PUT'',
                  http_body = Some (JObj [(''fields'', JObj (foldl updateIssue_entry [] ff))]) \<rparr>"
  obtain w1 where mr: "makeRequest config up (''issue/'' @ issueKey) ?opts ?w0 =
       (request_result (up (requests w) put), w1)"
    and rq: "requests w1 = requests w @ [put]"
    using makeRequest_result [of config up "''issue/'' @ issueKey" ?opts ?w0]
    by (auto simp: put_def update_request_def)
  show ?thesis
  proof (cases "request_result (up (requests w) put)")
    case (Inl e)
    with mr rq show ?thesis
      by (simp add: updateIssue_def io_defs Let_def bindE_def put_def)
  next
    case (Inr result)
    let ?w2 = "logger_info ''Successfully updated JIRA issue''
                       (JObj [(''issueKey'', JStr issueKey)]) w1"
    obtain w3 where gi: "getIssue config up (JStr issueKey) ?w2 =
           (getIssue_result (up (requests w @ [put]) (get_request config (JStr issueKey))), w3)"
      and rq3: "requests w3 = requests w @ [put] @ [get_request config (JStr issueKey)]"
      using getIssue_result [of config up "JStr issueKey" ?w2] rq by auto
    show ?thesis
      using Inr mr gi rq3
      by (cases "getIssue_result (up (requests w @ [put]) (get_request config (JStr issueKey)))")
         (simp_all add: updateIssue_def io_defs Let_def bindE_def put_def)
  qed
qed

text \<open>The object \<^verbatim>\<open>shape_issue\<close> builds is the summary of the issue.\<close>

lemma shape_issue_summary: "shape_issue issue = Inr s \<Longrightarrow> s = IssueSummary_of issue"
  by (drule shape_issue_paths) (simp add: IssueSummary_of_def js_or_def Let_def)

lemma getIssue_result_summary:
  assumes "getIssue_result outcome = Inr s"
  shows "\<exists>issue. request_result outcome = Inr issue \<and> s = IssueSummary_of issue"
  using assms unfolding getIssue_result_def
  by (blast dest: bindE_Inr shape_issue_summary)

lemma mapE_shape_issue: "mapE shape_issue xs = Inr ys \<Longrightarrow> ys = map IssueSummary_of xs"
proof (induction xs arbitrary: ys)
  case Nil
  then show ?case by simp
next
  case (Cons x xs)
  then show ?case by (auto dest!: bindE_Inr shape_issue_summary)
qed

lemma search_summary_summary:
  assumes "search_summary result = Inr summary"
  shows "\<exists>xs. js_get result ''issues'' = Inr (JArr xs) \<and>
           summary = JObj [(''total'', path_value result [''total'']),
                           (''startAt'', path_value result [''startAt'']),
                           (''maxResults'', path_value result [''maxResults'']),
                           (''issues'', JArr (map IssueSummary_of xs))]"
proof -
  from assms obtain total startAt maxResults v issues where
    t: "js_get result ''total'' = Inr total" and
    sa: "js_get result ''startAt'' = Inr startAt" and
    mx: "js_get result ''maxResults'' = Inr maxResults" and
    v: "js_get result ''issues'' = Inr v" and
    m: "issues_map shape_issue v = Inr issues" and
    s: "summary = JObj [(''total'', total), (''startAt'', startAt), (''maxResults'', maxResults),
                  (''issues'', issues)]"
    unfolding search_summary_def by (fastforce dest!: bindE_Inr)
  from m obtain xs ys where x: "v = JArr xs" "issues = JArr ys" "mapE shape_issue xs = Inr ys"
    by (cases v) (auto simp: issues_map_def bindE_def split: sum.splits)
  have "path_value result [''total''] = total" "path_value result [''startAt''] = startAt"
    "path_value result [''maxResults''] = maxResults"
    using t sa mx by (simp_all add: js_get_opt_Inr)
  with v s x mapE_shape_issue [of xs ys] show ?thesis by simp
qed

text \<open>
  A handler that formats what a client method returns: when it answers with a JSON
  text, the method returned, and the text is that of the value returned.
\<close>

lemma tool_json_reply:
  assumes "client w = (r, w')"
    and "fst (try_catch (bindIO client (\<lambda>issue. returnIO (JsonText (json_of issue))))
               (tool_catch name) w) = Inr (JsonText t)"
  shows "\<exists>s. r = Inr s \<and> t = json_of s \<and>
           snd (try_catch (bindIO client (\<lambda>issue. returnIO (JsonText (json_of issue))))
               (tool_catch name) w) = w'"
  using assms by (cases r) (simp_all add: io_defs tool_catch_def Let_def)

lemma last_outcome_snoc: "requests w' = rs @ [r] \<Longrightarrow> last_outcome up w' = up rs r"
  by (simp add: last_outcome_def)

lemma last_outcome_snoc2: "requests w' = rs @ [q, r] \<Longrightarrow> last_outcome up w' = up (rs @ [q]) r"
  by (simp add: last_outcome_def butlast_append)

lemma jira_get_issue_summary:
  assumes "fst (jira_get_issue config up issueKey w) = Inr (JsonText t)"
  shows "\<exists>issue. request_result (last_outcome up (snd (jira_get_issue config up issueKey w))) =
           Inr issue \<and> t = json_of (IssueSummary_of issue)"
proof -
  obtain w' where gi: "getIssue config up (JStr issueKey) w =
      (getIssue_result (up (requests w) (get_request config (JStr issueKey))), w')"
    and rq: "requests w' = requests w @ [get_request config (JStr issueKey)]"
    using getIssue_result [of config up "JStr issueKey" w] by blast
  from tool_json_reply [where client = "getIssue config up (JStr issueKey)" and w = w, OF gi]
    assms obtain s where
    s: "getIssue_result (up (requests w) (get_request config (JStr issueKey))) = Inr s"
    and t: "t = json_of s" and w': "snd (jira_get_issue config up issueKey w) = w'"
    unfolding jira_get_issue_def jira_get_issue_try_def by blast
  from getIssue_result_summary [OF s] obtain issue where
    "request_result (up (requests w) (get_request config (JStr issueKey))) = Inr issue"
    "s = IssueSummary_of issue" by blast
  then show ?thesis
    using t w' last_outcome_snoc [OF rq, of up] by auto
qed

lemma jira_create_issue_summary:
  assumes "fst (jira_create_issue config up projectKey issueType summary description assignee
             priority w) = Inr (JsonText t)"
  shows "\<exists>issue. request_result (last_outcome up (snd (jira_create_issue config up projectKey
             issueType summary description assignee priority w))) = Inr issue \<and>
           t = json_of (IssueSummary_of issue)"
proof -
  let ?post = "create_request config projectKey issueType summary description assignee priority"
  let ?r = "bindE (request_result (up (requests w) ?post)) (\<lambda>result.
            bindE (js_get result ''key'') (\<lambda>key.
              getIssue_result (up (requests w @ [?post]) (get_request config key))))"
  obtain w' where ci: "createIssue config up projectKey issueType summary description assignee
        priority w = (?r, w')"
    and rq: "requests w' = requests w @ ?post #
           (case bindE (request_result (up (requests w) ?post)) (\<lambda>result. js_get result ''key'') of
              Inl _ \<Rightarrow> [] | Inr key \<Rightarrow> [get_request config key])"
    using createIssue_result [of config up projectKey issueType summary description assignee
        priority w] by blast
  from tool_json_reply [where client = "createIssue config up projectKey issueType summary
      description assignee priority" and w = w, OF ci] assms obtain s where
    s: "?r = Inr s" and t: "t = json_of s"
    and w': "snd (jira_create_issue config up projectKey issueType summary description assignee
               priority w) = w'"
    unfolding jira_create_issue_def jira_create_issue_try_def by blast
  from s obtain result key where
    res: "request_result (up (requests w) ?post) = Inr result" and
    key: "js_get result ''key'' = Inr key" and
    gi: "getIssue_result (up (requests w @ [?post]) (get_request config key)) = Inr s"
    by (blast dest: bindE_Inr)
  have "requests w' = requests w @ [?post, get_request config key]"
    using rq res key by (simp add: bindE_def)
  then have lo: "last_outcome up w' = up (requests w @ [?post]) (get_request config key)"
    by (rule last_outcome_snoc2)
  from getIssue_result_summary [OF gi] show ?thesis
    using t w' lo by auto
qed

lemma jira_update_issue_summary:
  assumes "fst (jira_update_issue config up issueKey summary description assignee priority w) =
             Inr (JsonText t)"
  shows "\<exists>issue. request_result (last_outcome up (snd (jira_update_issue config up issueKey
             summary description assignee priority w))) = Inr issue \<and>
           t = json_of (IssueSummary_of issue)"
proof -
  let ?ff = "filteredFields summary description assignee priority"
  let ?put = "update_request config issueKey (foldl updateIssue_entry [] ?ff)"
  let ?get = "get_request config (JStr issueKey)"
  let ?r = "bindE (request_result (up (requests w) ?put)) (\<lambda>_.
              getIssue_result (up (requests w @ [?put]) ?get))"
  have ne: "length ?ff \<noteq> 0"
  proof
    assume "length ?ff = 0"
    then have "fst (jira_update_issue config up issueKey summary description assignee priority w)
        = Inr (Text ''Error: No fields provided to update'')"
      by (simp add: jira_update_issue_def jira_update_issue_try_def try_catch_def returnIO_def)
    with assms show False by simp
  qed
  then have tool: "jira_update_issue config up issueKey summary description assignee priority =
      try_catch (bindIO (updateIssue config up issueKey ?ff)
                   (\<lambda>issue. returnIO (JsonText (json_of issue))))
        (tool_catch ''jira_update_issue'')"
    by (simp add: jira_update_issue_def jira_update_issue_try_def Let_def)
  obtain w' where ui: "updateIssue config up issueKey ?ff w = (?r, w')"
    and rq: "requests w' = requests w @ ?put #
           (case request_result (up (requests w) ?put) of
              Inl _ \<Rightarrow> [] | Inr _ \<Rightarrow> [?get])"
    using updateIssue_result [of config up issueKey ?ff w] by blast
  from tool_json_reply [where client = "updateIssue config up issueKey ?ff" and w = w, OF ui]
    assms obtain s where
    s: "?r = Inr s" and t: "t = json_of s"
    and w': "snd (jira_update_issue config up issueKey summary description assignee priority w)
               = w'"
    unfolding tool by blast
  from s obtain result where
    res: "request_result (up (requests w) ?put) = Inr result" and
    gi: "getIssue_result (up (requests w @ [?put]) ?get) = Inr s"
    by (blast dest: bindE_Inr)
  have "requests w' = requests w @ [?put, ?get]"
    using rq res by simp
  then have lo: "last_outcome up w' = up (requests w @ [?put]) ?get"
    by (rule last_outcome_snoc2)
  from getIssue_result_summary [OF gi] show ?thesis
    using t w' lo by auto
qed

lemma jira_search_summary:
  assumes "fst (jira_search config up jql s m w) = Inr (JsonText t)"
  shows "\<exists>result xs. request_result (last_outcome up (snd (jira_search config up jql s m w))) =
             Inr result \<and>
           js_get result ''issues'' = Inr (JArr xs) \<and>
           t = json_of (JObj [(''total'', path_value result [''total'']),
                              (''startAt'', path_value result [''startAt'']),
                              (''maxResults'', path_value result [''maxResults'']),
                              (''issues'', JArr (map IssueSummary_of xs))])"
proof -
  let ?req = "\<lambda>encoded. requestOptions config
                  (''search?jql='' @ encoded @ ''&startAt='' @ s @ ''&maxResults='' @ m)
                  \<lparr> http_method = None, http_body = None \<rparr>"
  let ?r = "bindE (encodeURIComponent jql) (\<lambda>encoded.
           bindE (request_result (up (requests w) (?req encoded))) (\<lambda>result.
           bindE (js_get result ''total'') (\<lambda>_.
           bindE (bindE (js_get result ''issues'') (\<lambda>is. js_get is ''length'')) (\<lambda>_.
             Inr result))))"
  obtain w' where si: "searchIssues config up jql (Some s) (Some m) w = (?r, w')"
    and rq: "requests w' = requests w @
          (case encodeURIComponent jql of Inl _ \<Rightarrow> [] | Inr encoded \<Rightarrow> [?req encoded])"
    using searchIssues_result [of config up jql s m w] by blast
  have "\<exists>result summary. ?r = Inr result \<and> search_summary result = Inr summary \<and>
          t = json_of summary \<and> snd (jira_search config up jql s m w) = w'"
    using assms si
    by (cases ?r; cases "search_summary (projr ?r)")
       (simp_all add: jira_search_def jira_search_try_def io_defs tool_catch_def Let_def)
  then obtain result summary where r: "?r = Inr result"
    and ss: "search_summary result = Inr summary" and t: "t = json_of summary"
    and w': "snd (jira_search config up jql s m w) = w'" by blast
  from r obtain encoded where enc: "encodeURIComponent jql = Inr encoded"
    and res: "request_result (up (requests w) (?req encoded)) = Inr result"
    by (fastforce dest!: bindE_Inr)
  have "requests w' = requests w @ [?req encoded]" using rq enc by simp
  then have lo: "last_outcome up w' = up (requests w) (?req encoded)"
    by (rule last_outcome_snoc)
  from search_summary_summary [OF ss] show ?thesis
    using t w' lo res by auto
qed

lemma json_of_IssueSummary:
  "json_of (IssueSummary_of issue) =
     JObj (json_property ''key'' (path_value issue [''key'']) @
           json_property ''summary'' (path_value issue [''fields'', ''summary'']) @
           json_property ''status'' (path_value issue [''fields'', ''status'', ''name'']) @
           [(''assignee'', json_of (js_or (path_value issue [''fields'', ''assignee'', ''displayName''])
                                      (JStr ''Unassigned''))),
            (''priority'', json_of (js_or (path_value issue [''fields'', ''priority'', ''name''])
                                      (JStr ''None''))),
            (''reporter'', json_of (js_or (path_value issue [''fields'', ''reporter'', ''displayName''])
                                      (JStr ''Unknown'')))])"
  by (auto simp: IssueSummary_of_def Let_def json_property_def js_or_def)

lemma json_of_js_or:
  "(\<not> truthy a \<longrightarrow> json_of (js_or a (JStr d)) = JStr d) \<and>
   (\<forall>x. a = JStr x \<and> x \<noteq> [] \<longrightarrow> json_of (js_or a (JStr d)) = JStr x)"
  by (simp add: js_or_def)

text \<open>
  C3, as amended. When \<^verbatim>\<open>jira_get_issue\<close>, \<^verbatim>\<open>jira_create_issue\<close> or \<^verbatim>\<open>jira_update_issue\<close>
  answers with a JSON text, the text is that of the summary of the issue which the
  last request fetched. When \<^verbatim>\<open>jira_search\<close> answers with a JSON text, the text is
  that of \<^verbatim>\<open>total\<close>, \<^verbatim>\<open>startAt\<close> and \<^verbatim>\<open>maxResults\<close> of the search result and of the
  summaries of its issues, in their order. The text of a summary has the fields
  \<^verbatim>\<open>key\<close>, \<^verbatim>\<open>summary\<close> and \<^verbatim>\<open>status\<close>, each with the upstream value and left out when
  that value is \<^verbatim>\<open>undefined\<close>, followed by \<^verbatim>\<open>assignee\<close>, \<^verbatim>\<open>priority\<close> and \<^verbatim>\<open>reporter\<close>,
  always present: each carries its sentinel when the upstream value is absent, null or
  otherwise falsy (the empty string included), and the upstream string when that is a
  non-empty string.
\<close>

theorem issue_summaries_returned:
  "(returns_issue call \<and> fst (execute config up call w) = Inr (JsonText t) \<longrightarrow>
      (\<exists>issue. request_result (last_outcome up (snd (execute config up call w))) = Inr issue \<and>
                t = json_of (IssueSummary_of issue))) \<and>
   (\<forall>jql startAt maxResults.
      call = Search jql startAt maxResults \<and>
      fst (execute config up call w) = Inr (JsonText t) \<longrightarrow>
      (\<exists>result xs.
         request_result (last_outcome up (snd (execute config up call w))) = Inr result \<and>
         js_get result ''issues'' = Inr (JArr xs) \<and>
         t = json_of (JObj [(''total'', path_value result [''total'']),
                            (''startAt'', path_value result [''startAt'']),
                            (''maxResults'', path_value result [''maxResults'']),
                            (''issues'', JArr (map IssueSummary_of xs))]))) \<and>
   json_of (IssueSummary_of issue) =
     JObj (json_property ''key'' (path_value issue [''key'']) @
           json_property ''summary'' (path_value issue [''fields'', ''summary'']) @
           json_property ''status'' (path_value issue [''fields'', ''status'', ''name'']) @
           [(''assignee'', json_of (js_or (path_value issue [''fields'', ''assignee'', ''displayName''])
                                      (JStr ''Unassigned''))),
            (''priority'', json_of (js_or (path_value issue [''fields'', ''priority'', ''name''])
                                      (JStr ''None''))),
            (''reporter'', json_of (js_or (path_value issue [''fields'', ''reporter'', ''displayName''])
                                      (JStr ''Unknown'')))]) \<and>
   (\<forall>k x. json_property k JUndefined = [] \<and> json_property k JNull = [(k, JNull)] \<and>
           json_property k (JStr x) = [(k, JStr x)]) \<and>
   (\<forall>a d. (\<not> truthy a \<longrightarrow> json_of (js_or a (JStr d)) = JStr d) \<and>
          (\<forall>x. a = JStr x \<and> x \<noteq> [] \<longrightarrow> json_of (js_or a (JStr d)) = JStr x))"
proof -
  have one: "returns_issue call \<and> fst (execute config up call w) = Inr (JsonText t) \<longrightarrow>
      (\<exists>issue. request_result (last_outcome up (snd (execute config up call w))) = Inr issue \<and>
                t = json_of (IssueSummary_of issue))"
  proof (cases call)
    case (Get_issue k)
    then show ?thesis using jira_get_issue_summary [of config up k w t] by simp
  next
    case (Create_issue p ty s d a pr)
    then show ?thesis using jira_create_issue_summary [of config up p ty s d a pr w t] by simp
  next
    case (Update_issue k s d a pr)
    then show ?thesis using jira_update_issue_summary [of config up k s d a pr w t] by simp
  qed simp_all
  have many: "\<forall>jql startAt maxResults.
      call = Search jql startAt maxResults \<and>
      fst (execute config up call w) = Inr (JsonText t) \<longrightarrow>
      (\<exists>result xs.
         request_result (last_outcome up (snd (execute config up call w))) = Inr result \<and>
         js_get result ''issues'' = Inr (JArr xs) \<and>
         t = json_of (JObj [(''total'', path_value result [''total'']),
                            (''startAt'', path_value result [''startAt'']),
                            (''maxResults'', path_value result [''maxResults'']),
                            (''issues'', JArr (map IssueSummary_of xs))]))"
  proof (intro allI impI)
    fix jql startAt maxResults
    assume a: "call = Search jql startAt maxResults \<and>
      fst (execute config up call w) = Inr (JsonText t)"
    obtain s m where sm: "jira_search_parameters startAt maxResults = (s, m)"
      by (cases "jira_search_parameters startAt maxResults")
    with a have ex: "execute config up call w = jira_search config up jql s m w" by simp
    with a have "fst (jira_search config up jql s m w) = Inr (JsonText t)" by simp
    from jira_search_summary [OF this] show "\<exists>result xs.
         request_result (last_outcome up (snd (execute config up call w))) = Inr result \<and>
         js_get result ''issues'' = Inr (JArr xs) \<and>
         t = json_of (JObj [(''total'', path_value result [''total'']),
                            (''startAt'', path_value result [''startAt'']),
                            (''maxResults'', path_value result [''maxResults'']),
                            (''issues'', JArr (map IssueSummary_of xs))])"
      unfolding ex .
  qed
  have props: "\<forall>k x. json_property k JUndefined = [] \<and> json_property k JNull = [(k, JNull)] \<and>
           json_property k (JStr x) = [(k, JStr x)]"
    by (simp add: json_property_def)
  have ors: "\<forall>a d. (\<not> truthy a \<longrightarrow> json_of (js_or a (JStr d)) = JStr d) \<and>
          (\<forall>x. a = JStr x \<and> x \<noteq> [] \<longrightarrow> json_of (js_or a (JStr d)) = JStr x)"
    by (auto simp: js_or_def)
  show ?thesis
    by (rule conjI [OF one conjI [OF many conjI [OF json_of_IssueSummary conjI [OF props ors]]]])
qed

text \<open>
  Fetching an unassigned issue gives six fields with the sentinel for the assignee; an
  upstream document without a key or a priority gives five fields, the key left out;
  and a search over both gives the two summaries in order.
\<close>

theorem issue_summaries_returned_witness:
  "fst (execute example_config issue_server (Get_issue ''PROJ-1'') (Logger_new None)) =
     Inr (JsonText (JObj [(''key'', JStr ''PROJ-1''), (''summary'', JStr ''Login fails''),
                          (''status'', JStr ''Open''), (''assignee'', JStr ''Unassigned''),
                          (''priority'', JStr ''High''), (''reporter'', JStr ''Ann'')])) \<and>
   (\<exists>issue. request_result (last_outcome issue_server
               (snd (execute example_config issue_server (Get_issue ''PROJ-1'') (Logger_new None))))
             = Inr issue \<and>
           JObj [(''key'', JStr ''PROJ-1''), (''summary'', JStr ''Login fails''),
                 (''status'', JStr ''Open''), (''assignee'', JStr ''Unassigned''),
                 (''priority'', JStr ''High''), (''reporter'', JStr ''Ann'')] =
             json_of (IssueSummary_of issue)) \<and>
   fst (execute example_config keyless_server (Get_issue ''PROJ-1'') (Logger_new None)) =
     Inr (JsonText (JObj [(''summary'', JStr ''Login fails''),
                          (''status'', JStr ''Open''), (''assignee'', JStr ''Bob''),
                          (''priority'', JStr ''None''), (''reporter'', JStr ''Ann'')])) \<and>
   (\<exists>result xs. request_result (last_outcome search_server
               (snd (execute example_config search_server (Search ''project = PROJ'' None None)
                       (Logger_new None)))) = Inr result \<and>
        js_get result ''issues'' = Inr (JArr xs) \<and>
        JObj [(''total'', JNum ''2''), (''startAt'', JNum ''0''), (''maxResults'', JNum ''50''),
              (''issues'', JArr [
                 JObj [(''key'', JStr ''PROJ-1''), (''summary'', JStr ''Login fails''),
                       (''status'', JStr ''Open''), (''assignee'', JStr ''Unassigned''),
                       (''priority'', JStr ''High''), (''reporter'', JStr ''Ann'')],
                 JObj [(''summary'', JStr ''Login fails''),
                       (''status'', JStr ''Open''), (''assignee'', JStr ''Bob''),
                       (''priority'', JStr ''None''), (''reporter'', JStr ''Ann'')]])] =
          json_of (JObj [(''total'', path_value result [''total'']),
                         (''startAt'', path_value result [''startAt'']),
                         (''maxResults'', path_value result [''maxResults'']),
                         (''issues'', JArr (map IssueSummary_of xs))])) \<and>
   json_of (js_or JNull (JStr ''Unassigned'')) = JStr ''Unassigned'' \<and>
   json_of (js_or (JStr ''Bob'') (JStr ''Unassigned'')) = JStr ''Bob''"
proof -
  have g: "fst (execute example_config issue_server (Get_issue ''PROJ-1'') (Logger_new None)) =
     Inr (JsonText (JObj [(''key'', JStr ''PROJ-1''), (''summary'', JStr ''Login fails''),
                          (''status'', JStr ''Open''), (''assignee'', JStr ''Unassigned''),
                          (''priority'', JStr ''High''), (''reporter'', JStr ''Ann'')]))"
    by code_simp
  have k: "fst (execute example_config keyless_server (Get_issue ''PROJ-1'') (Logger_new None)) =
     Inr (JsonText (JObj [(''summary'', JStr ''Login fails''),
                          (''status'', JStr ''Open''), (''assignee'', JStr ''Bob''),
                          (''priority'', JStr ''None''), (''reporter'', JStr ''Ann'')]))"
    by code_simp
  have s: "fst (execute example_config search_server (Search ''project = PROJ'' None None)
                 (Logger_new None)) =
     Inr (JsonText (JObj [(''total'', JNum ''2''), (''startAt'', JNum ''0''),
              (''maxResults'', JNum ''50''),
              (''issues'', JArr [
                 JObj [(''key'', JStr ''PROJ-1''), (''summary'', JStr ''Login fails''),
                       (''status'', JStr ''Open''), (''assignee'', JStr ''Unassigned''),
                       (''priority'', JStr ''High''), (''reporter'', JStr ''Ann'')],
                 JObj [(''summary'', JStr ''Login fails''),
                       (''status'', JStr ''Open''), (''assignee'', JStr ''Bob''),
                       (''priority'', JStr ''None''), (''reporter'', JStr ''Ann'')]])]))"
    by code_simp
  have r: "returns_issue (Get_issue ''PROJ-1'')" by simp
  have one: "\<exists>issue. request_result (last_outcome issue_server
               (snd (execute example_config issue_server (Get_issue ''PROJ-1'') (Logger_new None))))
             = Inr issue \<and>
           JObj [(''key'', JStr ''PROJ-1''), (''summary'', JStr ''Login fails''),
                 (''status'', JStr ''Open''), (''assignee'', JStr ''Unassigned''),
                 (''priority'', JStr ''High''), (''reporter'', JStr ''Ann'')] =
             json_of (IssueSummary_of issue)"
    by (rule issue_summaries_returned [of "Get_issue ''PROJ-1''" example_config issue_server
          "Logger_new None", THEN conjunct1, THEN mp, OF conjI [OF r g]])
  have many: "\<exists>result xs. request_result (last_outcome search_server
               (snd (execute example_config search_server (Search ''project = PROJ'' None None)
                       (Logger_new None)))) = Inr result \<and>
        js_get result ''issues'' = Inr (JArr xs) \<and>
        JObj [(''total'', JNum ''2''), (''startAt'', JNum ''0''), (''maxResults'', JNum ''50''),
              (''issues'', JArr [
                 JObj [(''key'', JStr ''PROJ-1''), (''summary'', JStr ''Login fails''),
                       (''status'', JStr ''Open''), (''assignee'', JStr ''Unassigned''),
                       (''priority'', JStr ''High''), (''reporter'', JStr ''Ann'')],
                 JObj [(''summary'', JStr ''Login fails''),
                       (''status'', JStr ''Open''), (''assignee'', JStr ''Bob''),
                       (''priority'', JStr ''None''), (''reporter'', JStr ''Ann'')]])] =
          json_of (JObj [(''total'', path_value result [''total'']),
                         (''startAt'', path_value result [''startAt'']),
                         (''maxResults'', path_value result [''maxResults'']),
                         (''issues'', JArr (map IssueSummary_of xs))])"
    by (rule issue_summaries_returned [of "Search ''project = PROJ'' None None" example_config
          search_server "Logger_new None", THEN conjunct2, THEN conjunct1, THEN spec, THEN spec,
          THEN spec, THEN mp, OF conjI [OF refl s]])
  note ors = issue_summaries_returned [of "Get_issue ''PROJ-1''" example_config issue_server
      "Logger_new None", THEN conjunct2, THEN conjunct2, THEN conjunct2, THEN conjunct2,
      THEN spec, THEN spec]
  have absent: "json_of (js_or JNull (JStr ''Unassigned'')) = JStr ''Unassigned''"
    by (rule ors [THEN conjunct1, THEN mp]) simp
  have bob: "json_of (js_or (JStr ''Bob'') (JStr ''Unassigned'')) = JStr ''Bob''"
    by (rule ors [THEN conjunct2, THEN spec, THEN mp]) simp
  show ?thesis
    by (rule conjI [OF g conjI [OF one conjI [OF k conjI [OF many conjI [OF absent bob]]]]])
qed

text \<open>
  C3 as stated fails: here the upstream \<^verbatim>\<open>assignee.displayName\<close> is present, the empty
  string, and the summary carries the sentinel instead of it.
\<close>

theorem sentinel_for_empty_name:
  "path_value issue_with_empty_name [''fields'', ''assignee'', ''displayName''] = JStr [] \<and>
   shape_issue issue_with_empty_name =
     Inr (JObj [(''key'', JStr ''PROJ-2''), (''summary'', JStr ''Login fails''),
                (''status'', JStr ''Open''), (''assignee'', JStr ''Unassigned''),
                (''priority'', JStr ''High''), (''reporter'', JStr ''Ann'')])"
  by (simp add: shape_issue_def issue_with_empty_name_def issue_field_def issue_field_or_def
        bindE_def js_get_opt_def obj_lookup_def js_or_def)

section \<open>A transition\<close>





text \<open>
  Beside the claim: the reply of the transitions endpoint, status 204 without a body,
  which \<^verbatim>\<open>response.json()\<close> cannot parse, is reported as an error although the status
  is a success.
\<close>

lemma no_content_reply:
  "fst (jira_transition_issue example_config no_content_server ''PROJ-1'' ''31'' (Some ''done'')
          (Logger_new None)) =
     Inr (Text ''Error: JIRA API request failed: Unexpected end of JSON input'')"
  by code_simp

section \<open>Startup without credentials\<close>

lemma loadConfig_missing:
  assumes "\<not> given (env ''JIRA_MCP_URL'') \<or> \<not> given (env ''JIRA_MCP_TOKEN'')"
  shows "loadConfig env w =
     (let m = (if \<not> given (env ''JIRA_MCP_URL'') then ''JIRA_MCP_URL'' else ''JIRA_MCP_TOKEN'') @
              '' environment variable is required''
      in (Inl (JsError m), logger_error m JUndefined w))"
  using assms by (auto simp: loadConfig_def Let_def)

text \<open>
  C9. If at startup the environment lacks \<^verbatim>\<open>JIRA_MCP_URL\<close> or lacks \<^verbatim>\<open>JIRA_MCP_TOKEN\<close>
  (the variable is unset or empty, which is what \<^verbatim>\<open>loadConfig\<close> tests), then whatever
  the command line and the other variables are, the server aborts before any tool is
  added: the process ends with exit status 1, with no tool registered and no transport
  started; the log holds exactly two entries, both at error level, the missing-variable
  error (for the URL if that is lacking, else for the token) and the startup failure;
  the fatal message \<^verbatim>\<open>FATAL: <error>\<close> is written to the console; no request is sent.
\<close>

theorem missing_credentials_abort_startup:
  assumes "\<not> given (env ''JIRA_MCP_URL'') \<or> \<not> given (env ''JIRA_MCP_TOKEN'')"
  shows "(let m = (if \<not> given (env ''JIRA_MCP_URL'') then ''JIRA_MCP_URL'' else ''JIRA_MCP_TOKEN'') @
                  '' environment variable is required''
          in fst (main env args ui) = \<lparr> tools = [], started = None, exit_code = Some 1 \<rparr> \<and>
             logs (snd (main env args ui)) =
               [\<lparr> level = ERROR, message = m, details = JUndefined \<rparr>,
                \<lparr> level = ERROR, message = ''Failed to start MCP server: '' @ m,
                  details = JUndefined \<rparr>] \<and>
             console (snd (main env args ui)) =
               [LoggerEcho ERROR m (JStr []),
                LoggerEcho ERROR (''Failed to start MCP server: '' @ m) (JStr []),
                ConsoleError (''FATAL: '' @ m)] \<and>
             requests (snd (main env args ui)) = [])"
  using loadConfig_missing [OF assms, of "Logger_new (env ''JIRA_MCP_DEBUG'')"]
  by (simp add: main_def main_try_def main_catch_def Let_def logger_error_eq js_or_def)
     (simp add: Logger_new_def)

text \<open>
  An environment with only the token, and one with only the URL (started with
  \<^verbatim>\<open>--remote\<close> and a threshold of \<^verbatim>\<open>error\<close>).
\<close>

theorem missing_credentials_abort_startup_witness:
  "exit_code (fst (main env_without_url [] (Inr ''http://localhost:8080''))) = Some 1 \<and>
   tools (fst (main env_without_url [] (Inr ''http://localhost:8080''))) = [] \<and>
   map message (logs (snd (main env_without_url [] (Inr ''http://localhost:8080'')))) =
     [''JIRA_MCP_URL environment variable is required'',
      ''Failed to start MCP server: JIRA_MCP_URL environment variable is required''] \<and>
   fst (main env_without_token [''--remote''] (Inl (JsError ''No available ports found''))) =
     \<lparr> tools = [], started = None, exit_code = Some 1 \<rparr> \<and>
   console (snd (main env_without_token [''--remote'']
                   (Inl (JsError ''No available ports found'')))) =
     [LoggerEcho ERROR ''JIRA_MCP_TOKEN environment variable is required'' (JStr []),
      LoggerEcho ERROR
        ''Failed to start MCP server: JIRA_MCP_TOKEN environment variable is required'' (JStr []),
      ConsoleError ''FATAL: JIRA_MCP_TOKEN environment variable is required'']"
proof -
  have u: "\<not> given (env_without_url ''JIRA_MCP_URL'') \<or> \<not> given (env_without_url ''JIRA_MCP_TOKEN'')"
    by (simp add: env_without_url_def)
  have t: "\<not> given (env_without_token ''JIRA_MCP_URL'') \<or>
           \<not> given (env_without_token ''JIRA_MCP_TOKEN'')"
    by (simp add: env_without_token_def)
  have gu: "\<not> given (env_without_url ''JIRA_MCP_URL'')" by (simp add: env_without_url_def)
  have gt: "given (env_without_token ''JIRA_MCP_URL'')" by (simp add: env_without_token_def)
  from missing_credentials_abort_startup [OF u, of "[]" "Inr ''http://localhost:8080''"]
    missing_credentials_abort_startup [OF t, of "[''--remote'']"
      "Inl (JsError ''No available ports found'')"]
  show ?thesis
    by (simp add: Let_def gu gt)
qed

text \<open>Beside the claim: the port of a valid configuration, and a port that is no number.\<close>

lemma parseInt_port:
  "parseInt ''8080'' = ''8080'' \<and> parseInt ''port'' = ''NaN''"
  apply (simp add: parseInt_def is_digit_def digit_value_def number_of_integer_def
      white_spaces_def Let_def)
  apply (simp add: round_double_def bit_length.simps show_double_def shortest_decimal_def
      shortest_exponent_def decimal_candidates_def show_nat.simps digit_char_def Let_def
      upt_conv_Cons)
  apply code_simp
  done

section \<open>Empty optional strings\<close>

lemma createIssue_fields_empty:
  "createIssue_fields projectKey issueType summary (Some []) assignee priority =
     createIssue_fields projectKey issueType summary None assignee priority"
  "createIssue_fields projectKey issueType summary description (Some []) priority =
     createIssue_fields projectKey issueType summary description None priority"
  "createIssue_fields projectKey issueType summary description assignee (Some []) =
     createIssue_fields projectKey issueType summary description assignee None"
  by (simp_all add: createIssue_fields_def)

lemma transitionIssue_body_empty:
  "transitionIssue_body transitionId (Some []) = transitionIssue_body transitionId None"
  by (simp add: transitionIssue_body_def)

text \<open>
  C10. The client tests its optional strings for truthiness, not presence: an empty
  string given for the description, the assignee or the priority of
  \<^verbatim>\<open>jira_create_issue\<close>, or for the comment of \<^verbatim>\<open>jira_transition_issue\<close>, makes the call
  behave in every respect (result, requests, log) as if the argument had been absent, so
  an empty optional never appears in the body sent: with all three empty the created
  fields are project, issuetype and summary alone, and the transition body is the
  transition alone.
\<close>

theorem empty_optional_is_absent:
  "execute config up (Create_issue projectKey issueType summary (Some []) assignee priority) =
     execute config up (Create_issue projectKey issueType summary None assignee priority) \<and>
   execute config up (Create_issue projectKey issueType summary description (Some []) priority) =
     execute config up (Create_issue projectKey issueType summary description None priority) \<and>
   execute config up (Create_issue projectKey issueType summary description assignee (Some [])) =
     execute config up (Create_issue projectKey issueType summary description assignee None) \<and>
   execute config up (Transition_issue issueKey transitionId (Some [])) =
     execute config up (Transition_issue issueKey transitionId None) \<and>
   map fst (createIssue_fields projectKey issueType summary (Some []) (Some []) (Some [])) =
     [''project'', ''issuetype'', ''summary''] \<and>
   transitionIssue_body transitionId (Some []) =
     JObj [(''transition'', JObj [(''id'', JStr transitionId)])]"
  by (simp add: jira_create_issue_def jira_create_issue_try_def createIssue_def
      jira_transition_issue_def jira_transition_issue_try_def transitionIssue_def
      createIssue_fields_empty transitionIssue_body_empty)
     (simp add: createIssue_fields_def transitionIssue_body_def)

text \<open>A creation with all three optional strings empty.\<close>

theorem empty_optional_is_absent_witness:
  "map req_body (requests (snd (execute example_config connection_refused
       (Create_issue ''PROJ'' ''Bug'' ''Login fails'' (Some []) (Some []) (Some []))
       (Logger_new None)))) =
     [Some (JObj [(''fields'', JObj [(''project'', JObj [(''key'', JStr ''PROJ'')]),
                                     (''issuetype'', JObj [(''name'', JStr ''Bug'')]),
                                     (''summary'', JStr ''Login fails'')])])]"
proof -
  have "map req_body (requests (snd (execute example_config connection_refused
       (Create_issue ''PROJ'' ''Bug'' ''Login fails'' None None None)
       (Logger_new None)))) =
     [Some (JObj [(''fields'', JObj [(''project'', JObj [(''key'', JStr ''PROJ'')]),
                                     (''issuetype'', JObj [(''name'', JStr ''Bug'')]),
                                     (''summary'', JStr ''Login fails'')])])]"
    by code_simp
  moreover have "execute example_config connection_refused
       (Create_issue ''PROJ'' ''Bug'' ''Login fails'' (Some []) (Some []) (Some [])) =
     execute example_config connection_refused
       (Create_issue ''PROJ'' ''Bug'' ''Login fails'' None None None)"
    using empty_optional_is_absent [of example_config connection_refused "''PROJ''" "''Bug''"
        "''Login fails''"]
    by metis
  ultimately show ?thesis by (simp only:)
qed

end
